theory Spec2Isabelle
  imports Main
begin

section \<open>JavaScript values used by the parser\<close>

text \<open>
  The development embeds the two source files of the parser: \<^verbatim>\<open>index.js\<close> (the argument
  classes, \<^verbatim>\<open>Command\<close>, \<^verbatim>\<open>register\<close>, \<^verbatim>\<open>parse\<close>) and \<^verbatim>\<open>src/index.js\<close>
  (\<^verbatim>\<open>registerSingle\<close>, \<^verbatim>\<open>register\<close>, \<^verbatim>\<open>parse\<close>, \<^verbatim>\<open>clear\<close>, \<^verbatim>\<open>deregister\<close>).
  Definitions from \<^verbatim>\<open>src/index.js\<close> whose name is already taken by \<^verbatim>\<open>index.js\<close> carry
  the prefix \<open>src_\<close>.

  A JavaScript string is a \<^typ>\<open>string\<close>: a list of code units below 256. A raw token is
  a string or \<^verbatim>\<open>undefined\<close>, that is a \<^typ>\<open>string option\<close>.
\<close>

type_synonym token = "string option"

text \<open>The classes of \<^verbatim>\<open>index.js\<close> that extend \<^verbatim>\<open>Argument\<close> (\<^verbatim>\<open>this.constructor\<close>).\<close>

datatype argclass =
  GenericClass | StringClass | UserClass | SubredditClass
  | CommandClass | CustomClass | DurationClass | IntegerClass

text \<open>
  An \<^verbatim>\<open>InvalidArgumentError\<close> object: \<^verbatim>\<open>message\<close> is what the host's \<^verbatim>\<open>localize\<close>
  returned (a string or \<^verbatim>\<open>undefined\<close>), \<^verbatim>\<open>code\<close> the upper-cased localization code.
\<close>

record invalid_argument_error =
  message :: "string option"
  code :: string
  sourceArg :: argclass

text \<open>
  The data fields of a \<^verbatim>\<open>Command\<close> object. A JavaScript value that is a command is a
  reference to a registry record; the value carries these fields of the record.
\<close>

record command_fields =
  name :: "string option"
  originalName :: "string option"
  description :: string
  longDescription :: string
  aliases :: "string list"

datatype jsval =
  Undefined
  | Bool bool
  | Num int
  | Str string
  | Err invalid_argument_error
  | Cmd command_fields

text \<open>Exceptions that unwind the call stack.\<close>

datatype exn =
  TypeError string
  | PlainError string
  | CommandError string string
  | HostError string

text \<open>\<^verbatim>\<open>!v\<close> is false exactly for the truthy values.\<close>

fun truthy :: "jsval \<Rightarrow> bool" where
  "truthy Undefined = False"
| "truthy (Bool b) = b"
| "truthy (Num n) = (n \<noteq> 0)"
| "truthy (Str s) = (s \<noteq> [])"
| "truthy (Err e) = True"
| "truthy (Cmd c) = True"

text \<open>
  \<^verbatim>\<open>Array.prototype.includes\<close> compares with SameValueZero: by value on primitives, by
  identity on objects. Every \<^verbatim>\<open>InvalidArgumentError\<close> that reaches the comparison was
  allocated by \<^verbatim>\<open>new\<close> during the call, after the \<^verbatim>\<open>choices\<close> array was built, so it
  is identical to no element of the array. Registry records are compared by their fields.
\<close>

fun same_value_zero :: "jsval \<Rightarrow> jsval \<Rightarrow> bool" where
  "same_value_zero Undefined Undefined = True"
| "same_value_zero (Bool a) (Bool b) = (a = b)"
| "same_value_zero (Num a) (Num b) = (a = b)"
| "same_value_zero (Str a) (Str b) = (a = b)"
| "same_value_zero (Cmd a) (Cmd b) = (a = b)"
| "same_value_zero _ _ = False"

definition array_includes :: "jsval list \<Rightarrow> jsval \<Rightarrow> bool" where
  "array_includes xs v = list_ex (\<lambda>x. same_value_zero x v) xs"

subsection \<open>Strings\<close>

definition upper_letters :: string where
  "upper_letters = ''ABCDEFGHIJKLMNOPQRSTUVWXYZ''"

definition lower_letters :: string where
  "lower_letters = ''abcdefghijklmnopqrstuvwxyz''"

definition digits :: string where
  "digits = ''0123456789''"

text \<open>\<^verbatim>\<open>String.prototype.toUpperCase\<close> on the ASCII letters.\<close>

definition upper_char :: "char \<Rightarrow> char" where
  "upper_char c = (case map_of (zip lower_letters upper_letters) c of Some u \<Rightarrow> u | None \<Rightarrow> c)"

definition toUpperCase :: "string \<Rightarrow> string" where
  "toUpperCase s = map upper_char s"

text \<open>The class \<^verbatim>\<open>\w\<close> of a regular expression: \<^verbatim>\<open>[A-Za-z0-9_]\<close>.\<close>

definition is_word_char :: "char \<Rightarrow> bool" where
  "is_word_char c = (c \<in> set (upper_letters @ lower_letters @ digits @ ''_''))"

definition is_alnum :: "char \<Rightarrow> bool" where
  "is_alnum c = (c \<in> set (upper_letters @ lower_letters @ digits))"

text \<open>
  The class \<^verbatim>\<open>\s\<close>, which is also what \<^verbatim>\<open>trim\<close> and \<^verbatim>\<open>parseInt\<close> strip: tab, line
  feed, vertical tab, form feed, carriage return, space and no-break space.
\<close>

definition is_space :: "char \<Rightarrow> bool" where
  "is_space c = (of_char c \<in> {9, 10, 11, 12, 13, 32, 160 :: nat})"

text \<open>The line terminators, which \<^verbatim>\<open>.\<close> does not match: line feed and carriage return.\<close>

definition is_line_terminator :: "char \<Rightarrow> bool" where
  "is_line_terminator c = (of_char c \<in> {10, 13 :: nat})"

definition trim :: "string \<Rightarrow> string" where
  "trim s = rev (dropWhile is_space (rev (dropWhile is_space s)))"

text \<open>Numbers that may be \<^verbatim>\<open>Infinity\<close> or \<^verbatim>\<open>-Infinity\<close>; the finite ones are integers.\<close>

datatype jsnum = NegInfinity | Finite int | Infinity

text \<open>\<^verbatim>\<open>x || d\<close> for an optional number \<open>x\<close>: \<^verbatim>\<open>undefined\<close> and \<^verbatim>\<open>0\<close> are falsy.\<close>

definition or_num :: "int option \<Rightarrow> jsnum \<Rightarrow> jsnum" where
  "or_num x d = (case x of None \<Rightarrow> d | Some n \<Rightarrow> if n \<noteq> 0 then Finite n else d)"

fun num_ge :: "int \<Rightarrow> jsnum \<Rightarrow> bool" where
  "num_ge n NegInfinity = True"
| "num_ge n (Finite m) = (n \<ge> m)"
| "num_ge n Infinity = False"

fun num_le :: "int \<Rightarrow> jsnum \<Rightarrow> bool" where
  "num_le n NegInfinity = False"
| "num_le n (Finite m) = (n \<le> m)"
| "num_le n Infinity = True"

subsection \<open>\<^verbatim>\<open>parseInt\<close> with no radix\<close>

text \<open>
  \<^verbatim>\<open>parseInt(value)\<close> on a string: leading white space is skipped, then an optional sign,
  then the prefix \<^verbatim>\<open>0x\<close> or \<^verbatim>\<open>0X\<close> selects radix 16 (radix 10 otherwise), then the
  longest run of digits of the radix is read; no digit gives \<^verbatim>\<open>NaN\<close> (\<open>None\<close>). The
  result is the exact integer. JavaScript's result is a double: it is this integer below
  \<open>2 ^ 53\<close>, a rounding of it above, and \<^verbatim>\<open>Infinity\<close> from about 309 digits on, which
  \<^verbatim>\<open>Number.isInteger\<close> refuses. The model is exact for tokens whose number is below
  \<open>2 ^ 53\<close> in magnitude and says nothing reliable about longer ones.
\<close>

definition digit_value :: "char \<Rightarrow> nat option" where
  "digit_value c = map_of (zip (digits @ ''abcdef'' @ ''ABCDEF'')
     ([0, 1, 2, 3, 4, 5, 6, 7, 8, 9] @ [10, 11, 12, 13, 14, 15] @ [10, 11, 12, 13, 14, 15])) c"

definition is_digit_of :: "nat \<Rightarrow> char \<Rightarrow> bool" where
  "is_digit_of radix c = (case digit_value c of None \<Rightarrow> False | Some d \<Rightarrow> d < radix)"

definition digits_value :: "nat \<Rightarrow> string \<Rightarrow> nat" where
  "digits_value radix z = foldl (\<lambda>acc c. acc * radix + (case digit_value c of Some d \<Rightarrow> d | None \<Rightarrow> 0)) 0 z"

definition parseInt :: "string \<Rightarrow> int option" where
  "parseInt inputString =
     (let s = dropWhile is_space inputString;
          sign = (case s of c # _ \<Rightarrow> if c = CHR ''-'' then - 1 else 1 | [] \<Rightarrow> (1::int));
          s1 = (case s of c # r \<Rightarrow> if c = CHR ''+'' \<or> c = CHR ''-'' then r else s | [] \<Rightarrow> s);
          hex = (case s1 of a # b # _ \<Rightarrow> a = CHR ''0'' \<and> (b = CHR ''x'' \<or> b = CHR ''X'') | _ \<Rightarrow> False);
          radix = (if hex then 16 else 10);
          s2 = (if hex then drop 2 s1 else s1);
          z = takeWhile (is_digit_of radix) s2
      in if z = [] then None else Some (sign * int (digits_value radix z)))"

section \<open>Argument descriptors (\<^verbatim>\<open>index.js\<close>)\<close>

text \<open>
  An object of class \<^verbatim>\<open>Argument\<close> or of one of its subclasses. \<open>cls\<close> is the class of
  the object and decides which \<^verbatim>\<open>getValue\<close> runs. The fields below \<open>arg_description\<close>
  exist only on some classes (\<open>min_bound\<close>, \<open>max_bound\<close>: \<^verbatim>\<open>this.min\<close>, \<^verbatim>\<open>this.max\<close> of
  the string and integer classes; \<open>matches\<close>: the \<^verbatim>\<open>test\<close> of
  \<^verbatim>\<open>this.matches\<close>; \<open>allowAlias\<close>; \<open>custom\<close>, a host function that returns normally
  (\<open>None\<close>) or throws); a class that does not have a field never reads it.
\<close>

record argument =
  cls :: argclass
  type :: string
  key :: string
  default_value :: jsval
  required :: bool
  choices :: "jsval list option"
  arg_description :: "string option"
  min_bound :: jsnum
  max_bound :: jsnum
  matches :: "string \<Rightarrow> bool"
  allowAlias :: bool
  custom :: "(token \<Rightarrow> exn option) option"

text \<open>
  The plain object handed to a constructor (\<^verbatim>\<open>argument\<close> in the source); a field that
  may be missing is an option. \<open>spec_matches\<close> is the \<^verbatim>\<open>test\<close> of the regular
  expression \<^verbatim>\<open>new RegExp(argument.matches)\<close> when \<^verbatim>\<open>argument.matches\<close> is given, a
  function of the string alone: a pattern with the flag \<^verbatim>\<open>g\<close> or \<^verbatim>\<open>y\<close>, whose
  \<^verbatim>\<open>test\<close> depends on earlier calls, is outside the model.
\<close>

record arg_spec =
  spec_type :: "string option"
  spec_key :: string
  spec_default :: jsval
  spec_required :: bool
  spec_choices :: "jsval list option"
  spec_description :: "string option"
  minLength :: "int option"
  maxLength :: "int option"
  spec_matches :: "(string \<Rightarrow> bool) option"
  spec_min :: "int option"
  spec_max :: "int option"
  spec_allowAlias :: "bool option"
  spec_custom :: "(token \<Rightarrow> exn option) option"

text \<open>
  The caller-supplied context \<^verbatim>\<open>pass\<close> (\<^verbatim>\<open>args\<close> inside the argument classes).
  \<open>localize\<close> and \<open>testPermission\<close> are host functions or missing; \<open>send\<close> tells
  whether \<^verbatim>\<open>pass.send\<close> is a function, its calls are recorded by the caller of the model;
  \<open>extra\<close> holds the other properties. An \<^verbatim>\<open>undefined\<close> \<^verbatim>\<open>pass\<close> is the context
  with nothing in it: reading \<^verbatim>\<open>args.localize\<close> or \<^verbatim>\<open>args.send\<close> raises a
  \<^verbatim>\<open>TypeError\<close> in both cases, and both copy to the empty object.
\<close>

datatype loc_params = NoParams | ArgParams argument token "string option"

record pass_context =
  localize :: "(string \<Rightarrow> loc_params \<Rightarrow> string option) option"
  send :: bool
  testPermission :: "(string \<Rightarrow> bool) option"
  extra :: "string \<rightharpoonup> jsval"

subsection \<open>Constructors\<close>

definition new_Argument :: "arg_spec \<Rightarrow> argument" where
  "new_Argument a = \<lparr>
     cls = GenericClass,
     type = ''generic'',
     key = spec_key a,
     default_value = spec_default a,
     required = (spec_required a \<or> False),
     choices = spec_choices a,
     arg_description = spec_description a,
     min_bound = NegInfinity,
     max_bound = Infinity,
     matches = (\<lambda>_. True),
     allowAlias = True,
     custom = None \<rparr>"

definition new_StringArgument :: "arg_spec \<Rightarrow> argument" where
  "new_StringArgument a = (new_Argument a) \<lparr>
     cls := StringClass,
     type := ''string'',
     min_bound := or_num (minLength a) (Finite 0),
     max_bound := or_num (maxLength a) Infinity,
     matches := (case spec_matches a of None \<Rightarrow> (\<lambda>_. True) | Some t \<Rightarrow> t) \<rparr>"

definition new_UserArgument :: "arg_spec \<Rightarrow> argument" where
  "new_UserArgument a = (new_StringArgument a) \<lparr> cls := UserClass \<rparr>"

definition new_SubredditArgument :: "arg_spec \<Rightarrow> argument" where
  "new_SubredditArgument a = (new_StringArgument a) \<lparr> cls := SubredditClass \<rparr>"

definition new_command :: "arg_spec \<Rightarrow> argument" where
  "new_command a = (new_Argument a) \<lparr>
     cls := CommandClass,
     type := ''command'',
     allowAlias := ((case spec_allowAlias a of None \<Rightarrow> False | Some b \<Rightarrow> b) \<or> True) \<rparr>"

definition new_custom :: "arg_spec \<Rightarrow> argument" where
  "new_custom a = (new_Argument a) \<lparr>
     cls := CustomClass,
     type := ''custom'',
     custom := spec_custom a \<rparr>"

definition new_duration :: "arg_spec \<Rightarrow> argument" where
  "new_duration a = (new_Argument a) \<lparr> cls := DurationClass, type := ''duration'' \<rparr>"

definition new_integer :: "arg_spec \<Rightarrow> argument" where
  "new_integer a = (new_Argument a) \<lparr>
     cls := IntegerClass,
     type := ''integer'',
     min_bound := or_num (spec_min a) NegInfinity,
     max_bound := or_num (spec_max a) Infinity \<rparr>"

text \<open>The table \<^verbatim>\<open>argTypes\<close> (its own properties).\<close>

definition argTypes :: "string \<Rightarrow> (arg_spec \<Rightarrow> argument) option" where
  "argTypes = map_of [
     (''command'', new_command),
     (''custom'', new_custom),
     (''duration'', new_duration),
     (''generic'', new_Argument),
     (''integer'', new_integer),
     (''string'', new_StringArgument),
     (''subreddit'', new_SubredditArgument),
     (''user'', new_UserArgument)]"

subsection \<open>\<^verbatim>\<open>InvalidArgumentError\<close>\<close>

text \<open>
  The constructor asks the host for the message of the code and, when that is falsy, for
  the message of \<^verbatim>\<open>argument_invalid\<close>; it raises a \<^verbatim>\<open>TypeError\<close> when the context has no
  \<^verbatim>\<open>localize\<close>.
\<close>

definition new_InvalidArgumentError ::
  "argclass \<Rightarrow> pass_context \<Rightarrow> string \<Rightarrow> argument \<Rightarrow> token \<Rightarrow> exn + invalid_argument_error" where
  "new_InvalidArgumentError sourceArg0 args localizationCode arg v =
     (case localize args of
        None \<Rightarrow> Inl (TypeError ''args.localize is not a function'')
      | Some loc \<Rightarrow>
          (let typeName = loc (''argument_type_'' @ type arg) NoParams;
               localized = loc localizationCode (ArgParams arg v typeName);
               msg = (if localized \<noteq> None \<and> localized \<noteq> Some []
                      then localized
                      else loc ''argument_invalid'' (ArgParams arg v typeName))
           in Inr \<lparr> message = msg, code = toUpperCase localizationCode, sourceArg = sourceArg0 \<rparr>))"

text \<open>\<^verbatim>\<open>return new InvalidArgumentError(this.constructor, args, code, this, value)\<close>.\<close>

definition return_error :: "argument \<Rightarrow> pass_context \<Rightarrow> string \<Rightarrow> token \<Rightarrow> exn + jsval" where
  "return_error arg args localizationCode v =
     (case new_InvalidArgumentError (cls arg) args localizationCode arg v of
        Inl x \<Rightarrow> Inl x
      | Inr e \<Rightarrow> Inr (Err e))"

subsection \<open>Commands and the registry\<close>

text \<open>
  The object built from the context and filled with the argument values
  (\<^verbatim>\<open>argsObj\<close>): \<open>ctx\<close> are the properties copied from \<^verbatim>\<open>pass\<close>, \<open>vals\<close> the
  properties assigned by \<^verbatim>\<open>parse\<close> (a key assigned \<^verbatim>\<open>undefined\<close> is present with the
  value \<open>Undefined\<close>).
\<close>

record argsObj =
  ctx :: pass_context
  vals :: "string \<rightharpoonup> jsval"

text \<open>\<^verbatim>\<open>command.check\<close>: missing, one predicate, or an array of predicates.\<close>

datatype check_spec =
  NoCheck
  | CheckOne "argsObj \<Rightarrow> bool"
  | CheckArray "(argsObj \<Rightarrow> bool) list"

text \<open>
  A \<^verbatim>\<open>Command\<close> object. \<open>handler\<close> names the host function to run, if there is one.
  \<open>permissionless\<close> and \<open>category\<close> are read by \<^verbatim>\<open>parse\<close> of \<^verbatim>\<open>src/index.js\<close> only.
  Handlers and predicates are host functions that return normally; what a predicate
  returns is read as true or false.
\<close>

record command = command_fields +
  arguments :: "argument list"
  check :: check_spec
  handler :: "string option"
  permissionless :: bool
  category :: "string option"

type_synonym registry = "string \<rightharpoonup> command"

text \<open>
  The libraries the parser calls: \<open>dur\<close> is \<^verbatim>\<open>parse-duration\<close> (\<open>None\<close> when it throws),
  \<open>split\<close> is \<^verbatim>\<open>split\<close> of \<^verbatim>\<open>smart-splitter\<close>, whose array may hold \<^verbatim>\<open>undefined\<close>
  entries, \<open>camelCase\<close> is \<^verbatim>\<open>camelcase\<close>.
\<close>

record libraries =
  dur :: "string \<Rightarrow> jsval option"
  split :: "string \<Rightarrow> nat \<Rightarrow> token list"
  camelCase :: "string \<Rightarrow> string"

subsection \<open>Conversion of a value to a string\<close>

fun decimal :: "nat \<Rightarrow> string" where
  "decimal n = (if n < 10 then [digits ! n] else decimal (n div 10) @ [digits ! (n mod 10)])"

text \<open>
  \<^verbatim>\<open>Error.prototype.toString\<close> on an \<^verbatim>\<open>InvalidArgumentError\<close>, whose \<^verbatim>\<open>name\<close> is
  \<^verbatim>\<open>Error\<close>: the name alone when the message is \<^verbatim>\<open>undefined\<close> or empty.
\<close>

definition error_toString :: "invalid_argument_error \<Rightarrow> string" where
  "error_toString e =
     (case message e of
        None \<Rightarrow> ''Error''
      | Some m \<Rightarrow> if m = [] then ''Error'' else ''Error: '' @ m)"

fun ToString :: "jsval \<Rightarrow> string" where
  "ToString Undefined = ''undefined''"
| "ToString (Bool b) = (if b then ''true'' else ''false'')"
| "ToString (Num n) = (if n < 0 then CHR ''-'' # decimal (nat (- n)) else decimal (nat n))"
| "ToString (Str s) = s"
| "ToString (Err e) = error_toString e"
| "ToString (Cmd c) = ''[object Object]''"

subsection \<open>The regular expressions of the user and subreddit classes\<close>

text \<open>
  \<^verbatim>\<open>/(u\/)?(.*)/i.exec(string)[2]\<close> with \<open>p\<close> the letter: the expression matches at
  index 0 of every string; the first group takes the letter (in either case) and the
  slash when the string starts with them, the second group runs to the first line
  terminator. \<^verbatim>\<open>exec\<close> converts its argument to a string first.
\<close>

definition exec_group2 :: "char \<Rightarrow> jsval \<Rightarrow> string" where
  "exec_group2 p v =
     (let s = ToString v;
          r = (case s of
                 c # d # rest \<Rightarrow> if upper_char c = upper_char p \<and> d = CHR ''/'' then rest else s
               | _ \<Rightarrow> s)
      in takeWhile (\<lambda>c. \<not> is_line_terminator c) r)"

text \<open>\<^verbatim>\<open>/^[\w-]+$/.test(noU)\<close>\<close>

definition test_user :: "string \<Rightarrow> bool" where
  "test_user noU = (noU \<noteq> [] \<and> list_all (\<lambda>c. is_word_char c \<or> c = CHR ''-'') noU)"

text \<open>\<^verbatim>\<open>/^[A-Za-z0-9]\w+$/.test(noR)\<close>\<close>

definition test_subreddit :: "string \<Rightarrow> bool" where
  "test_subreddit noR =
     (case noR of
        [] \<Rightarrow> False
      | c # rest \<Rightarrow> is_alnum c \<and> rest \<noteq> [] \<and> list_all is_word_char rest)"

subsection \<open>\<^verbatim>\<open>getValue\<close> of each class\<close>

text \<open>\<^verbatim>\<open>Argument.getValue\<close>: the value itself.\<close>

definition Argument_getValue :: "token \<Rightarrow> exn + jsval" where
  "Argument_getValue v = Inr (case v of None \<Rightarrow> Undefined | Some s \<Rightarrow> Str s)"

definition StringArgument_getValue :: "argument \<Rightarrow> token \<Rightarrow> pass_context \<Rightarrow> exn + jsval" where
  "StringArgument_getValue this v args =
     (case v of
        None \<Rightarrow> Inr Undefined
      | Some str \<Rightarrow>
          if \<not> matches this str then return_error this args ''string_argument_regexp_fail'' v
          else if num_ge (int (length str)) (max_bound this)
            then return_error this args ''string_argument_too_long'' v
          else if num_le (int (length str)) (min_bound this)
            then return_error this args ''string_argument_too_short'' v
          else Inr (Str str))"

definition UserArgument_getValue :: "argument \<Rightarrow> token \<Rightarrow> pass_context \<Rightarrow> exn + jsval" where
  "UserArgument_getValue this v args =
     (case StringArgument_getValue this v args of
        Inl x \<Rightarrow> Inl x
      | Inr string \<Rightarrow>
          (let noU = exec_group2 CHR ''u'' string
           in if test_user noU then
                if length noU < 3 then return_error this args ''user_argument_too_short'' v
                else if length noU > 20 then return_error this args ''user_argument_too_long'' v
                else Inr (Str noU)
              else return_error this args ''user_argument_invalid'' v))"

definition SubredditArgument_getValue :: "argument \<Rightarrow> token \<Rightarrow> pass_context \<Rightarrow> exn + jsval" where
  "SubredditArgument_getValue this v args =
     (case StringArgument_getValue this v args of
        Inl x \<Rightarrow> Inl x
      | Inr string \<Rightarrow>
          (let noR = exec_group2 CHR ''r'' string
           in if test_subreddit noR then
                if length noR < 3 then return_error this args ''subreddit_argument_too_short'' v
                else if length noR > 20 then return_error this args ''subreddit_argument_too_long'' v
                else Inr (Str noR)
              else return_error this args ''subreddit_argument_invalid'' v))"

definition command_getValue ::
  "registry \<Rightarrow> argument \<Rightarrow> token \<Rightarrow> pass_context \<Rightarrow> exn + jsval" where
  "command_getValue cmdRegistry this v args =
     (case v of
        None \<Rightarrow> Inr Undefined
      | Some s \<Rightarrow>
          (case cmdRegistry s of
             Some cmd \<Rightarrow>
               if \<not> allowAlias this \<and> name cmd \<noteq> originalName cmd
               then return_error this args ''command_argument_not_original'' v
               else Inr (Cmd (command_fields.truncate cmd))
           | None \<Rightarrow> return_error this args ''command_argument_nonexistent'' v))"

text \<open>
  The custom class calls the host function and drops what it returns: there is no
  \<^verbatim>\<open>return\<close>. A missing function makes the call a \<^verbatim>\<open>TypeError\<close>.
\<close>

definition custom_getValue :: "argument \<Rightarrow> token \<Rightarrow> exn + jsval" where
  "custom_getValue this v =
     (case custom this of
        None \<Rightarrow> Inl (TypeError ''this.custom is not a function'')
      | Some f \<Rightarrow> (case f v of Some x \<Rightarrow> Inl x | None \<Rightarrow> Inr Undefined))"

definition duration_getValue ::
  "libraries \<Rightarrow> argument \<Rightarrow> token \<Rightarrow> pass_context \<Rightarrow> exn + jsval" where
  "duration_getValue L this v args =
     (case v of
        None \<Rightarrow> Inr Undefined
      | Some s \<Rightarrow>
          (case dur L s of
             Some d \<Rightarrow> Inr d
           | None \<Rightarrow> return_error this args ''duration_argument_invalid'' v))"

definition integer_getValue :: "argument \<Rightarrow> token \<Rightarrow> pass_context \<Rightarrow> exn + jsval" where
  "integer_getValue this v args =
     (case v of
        None \<Rightarrow> Inr Undefined
      | Some s \<Rightarrow>
          (case parseInt s of
             None \<Rightarrow> return_error this args ''integer_argument_invalid'' v
           | Some i \<Rightarrow>
               if num_ge i (max_bound this) then return_error this args ''integer_argument_too_high'' v
               else if num_le i (min_bound this) then return_error this args ''integer_argument_too_low'' v
               else Inr (Num i)))"

text \<open>The method call \<^verbatim>\<open>this.getValue(value, args)\<close>, dispatched on the class.\<close>

definition getValue ::
  "libraries \<Rightarrow> registry \<Rightarrow> argument \<Rightarrow> token \<Rightarrow> pass_context \<Rightarrow> exn + jsval" where
  "getValue L cmdRegistry this v args =
     (case cls this of
        GenericClass \<Rightarrow> Argument_getValue v
      | StringClass \<Rightarrow> StringArgument_getValue this v args
      | UserClass \<Rightarrow> UserArgument_getValue this v args
      | SubredditClass \<Rightarrow> SubredditArgument_getValue this v args
      | CommandClass \<Rightarrow> command_getValue cmdRegistry this v args
      | CustomClass \<Rightarrow> custom_getValue this v
      | DurationClass \<Rightarrow> duration_getValue L this v args
      | IntegerClass \<Rightarrow> integer_getValue this v args)"

subsection \<open>Defaults, required arguments and choices\<close>

definition defaulter :: "jsval \<Rightarrow> jsval \<Rightarrow> jsval" where
  "defaulter val defaultTo =
     (if \<not> truthy defaultTo then val
      else if val = Undefined \<or> (case val of Err _ \<Rightarrow> True | _ \<Rightarrow> False) then defaultTo
      else val)"

definition getWithDefault ::
  "libraries \<Rightarrow> registry \<Rightarrow> argument \<Rightarrow> token \<Rightarrow> pass_context \<Rightarrow> exn + jsval" where
  "getWithDefault L cmdRegistry this v args =
     (case getValue L cmdRegistry this v args of
        Inl x \<Rightarrow> Inl x
      | Inr val \<Rightarrow>
          if required this \<and> val = Undefined
          then return_error this args ''argument_required'' v
          else
            (let defaulted = defaulter val (default_value this)
             in case choices this of
                  None \<Rightarrow> Inr defaulted
                | Some cs \<Rightarrow>
                    if array_includes cs defaulted then Inr defaulted
                    else return_error this args ''argument_unavailable_choice'' v))"

text \<open>
  \<^verbatim>\<open>get\<close> returns \<^verbatim>\<open>{success, value}\<close>; on a failure it sends the message of the
  error first (a \<^verbatim>\<open>TypeError\<close> when the context has no \<^verbatim>\<open>send\<close>) and the result has
  no \<^verbatim>\<open>value\<close>. The second component lists the messages sent.
\<close>

record get_result =
  success :: bool
  result_value :: jsval

definition get ::
  "libraries \<Rightarrow> registry \<Rightarrow> argument \<Rightarrow> token \<Rightarrow> pass_context
     \<Rightarrow> exn + get_result \<times> string option list" where
  "get L cmdRegistry this v args =
     (case getWithDefault L cmdRegistry this v args of
        Inl x \<Rightarrow> Inl x
      | Inr (Err e) \<Rightarrow>
          if send args then Inr (\<lparr> success = False, result_value = Undefined \<rparr>, [message e])
          else Inl (TypeError ''args.send is not a function'')
      | Inr val \<Rightarrow> Inr (\<lparr> success = True, result_value = val \<rparr>, []))"

section \<open>Commands (\<^verbatim>\<open>index.js\<close>)\<close>

text \<open>An element of \<^verbatim>\<open>command.arguments\<close>: an \<^verbatim>\<open>Argument\<close> object or a plain object.\<close>

datatype arg_in = ArgInstance argument | ArgSpec arg_spec

text \<open>
  The object handed to \<^verbatim>\<open>register\<close>: a plain object or a \<^verbatim>\<open>Command\<close>; a property that
  may be missing is an option.
\<close>

record cmd_spec =
  cs_name :: "string option"
  cs_command :: "string option"
  cs_originalName :: "string option"
  cs_description :: "string option"
  cs_describe :: "string option"
  cs_longDescription :: "string option"
  cs_arguments :: "arg_in list option"
  cs_aliases :: "string list option"
  cs_check :: check_spec
  cs_handler :: "string option"
  cs_permissionless :: bool
  cs_category :: "string option"

text \<open>\<^verbatim>\<open>a || b\<close> on optional strings: \<^verbatim>\<open>undefined\<close> and the empty string are falsy.\<close>

definition or_str :: "string option \<Rightarrow> string option \<Rightarrow> string option" where
  "or_str a b = (case a of None \<Rightarrow> b | Some s \<Rightarrow> if s \<noteq> [] then a else b)"

definition findName :: "cmd_spec \<Rightarrow> string option" where
  "findName obj = or_str (cs_name obj) (cs_command obj)"

text \<open>
  The callback of \<^verbatim>\<open>command.arguments.map\<close>. \<^verbatim>\<open>argTypes[arg.type]\<close> is looked up among
  the eight own properties of the table; a type named like an inherited property
  (\<^verbatim>\<open>constructor\<close>, \<^verbatim>\<open>toString\<close>) is outside the model.
\<close>

definition new_arg :: "arg_in \<Rightarrow> argument" where
  "new_arg arg =
     (case arg of
        ArgInstance a \<Rightarrow> a
      | ArgSpec a \<Rightarrow>
          (case spec_type a of
             None \<Rightarrow> new_StringArgument a
           | Some t \<Rightarrow> (case argTypes t of Some C \<Rightarrow> C a | None \<Rightarrow> new_StringArgument a)))"

definition new_Command :: "cmd_spec \<Rightarrow> command" where
  "new_Command c =
     (let name0 = findName c;
          description0 =
            (case or_str (or_str (cs_description c) (cs_describe c)) (Some []) of
               Some d \<Rightarrow> d | None \<Rightarrow> [])
      in \<lparr> name = name0,
           originalName = or_str (cs_originalName c) name0,
           description = description0,
           longDescription =
             (case or_str (or_str (cs_longDescription c) (Some description0)) (Some []) of
                Some d \<Rightarrow> d | None \<Rightarrow> []),
           aliases = (case cs_aliases c of Some a \<Rightarrow> a | None \<Rightarrow> []),
           arguments = (case cs_arguments c of Some as \<Rightarrow> map new_arg as | None \<Rightarrow> []),
           check = cs_check c,
           handler = cs_handler c,
           permissionless = False,
           category = None \<rparr>)"

text \<open>
  \<open>Modelled from the spec:\<close> \<^verbatim>\<open>resolveCommand\<close> of \<^verbatim>\<open>./util/resolve-command.js\<close> and the
  \<^verbatim>\<open>Command\<close> class of \<^verbatim>\<open>./command.js\<close>, which \<^verbatim>\<open>src/index.js\<close> requires. The
  specification is normalised into a command record, a copy per filing, that also carries
  \<open>permissionless\<close> and \<open>category\<close>.
\<close>

definition resolveCommand :: "cmd_spec \<Rightarrow> command" where
  "resolveCommand c =
     (new_Command c) \<lparr> permissionless := cs_permissionless c, category := cs_category c \<rparr>"

section \<open>Registration\<close>

text \<open>
  The body of \<^verbatim>\<open>alias.forEach\<close>, shared by \<^verbatim>\<open>register\<close> of \<^verbatim>\<open>index.js\<close> and
  \<^verbatim>\<open>registerSingle\<close> of \<^verbatim>\<open>src/index.js\<close>: \<open>mk\<close> builds the record that is filed,
  \<open>name0\<close> is the canonical name, \<open>alias\<close> the whole array that is iterated. Each step
  overwrites three properties of the caller's object and files a record under the alias.
\<close>

fun forEach_alias ::
  "(cmd_spec \<Rightarrow> command) \<Rightarrow> string \<Rightarrow> string list \<Rightarrow> string list
     \<Rightarrow> cmd_spec \<times> registry \<Rightarrow> cmd_spec \<times> registry" where
  "forEach_alias mk name0 alias [] (cmd, cmdRegistry) = (cmd, cmdRegistry)"
| "forEach_alias mk name0 alias (aname # rest) (cmd, cmdRegistry) =
     (let cmd1 = cmd \<lparr> cs_name := Some aname,
                         cs_originalName := Some name0,
                         cs_aliases := Some (filter (\<lambda>name2. name2 \<noteq> aname) alias) \<rparr>;
          cmdFixed = mk cmd1
      in forEach_alias mk name0 alias rest (cmd1, cmdRegistry(aname \<mapsto> cmdFixed)))"

text \<open>
  What a registration leaves behind: the registry, the caller's object, and the array
  \<^verbatim>\<open>alias\<close>, which is the caller's own \<^verbatim>\<open>aliases\<close> array when the object had one.
\<close>

record register_result =
  registry_after :: registry
  cmd_after :: cmd_spec
  alias_array :: "string list"

definition register_with ::
  "(cmd_spec \<Rightarrow> command) \<Rightarrow> string \<Rightarrow> cmd_spec \<Rightarrow> registry \<Rightarrow> register_result" where
  "register_with mk name0 cmd cmdRegistry =
     (let alias = (case cs_aliases cmd of Some a \<Rightarrow> a | None \<Rightarrow> []) @ [name0];
          (cmd', reg') = forEach_alias mk name0 alias alias (cmd, cmdRegistry)
      in \<lparr> registry_after = reg', cmd_after = cmd', alias_array = alias \<rparr>)"

text \<open>
  \<^verbatim>\<open>register\<close> of \<^verbatim>\<open>index.js\<close>. Its second test,
  \<^verbatim>\<open>!(typeof cmd === "object" || cmd instanceof Command)\<close>, is false on every object, and
  \<^verbatim>\<open>typeof cmd === "object"\<close> makes every filing a fresh \<^verbatim>\<open>new Command(cmd)\<close>.
\<close>

definition register :: "cmd_spec \<Rightarrow> registry \<Rightarrow> exn + register_result" where
  "register cmd cmdRegistry =
     (case findName cmd of
        None \<Rightarrow> Inl (PlainError ''A command must have a name.'')
      | Some name0 \<Rightarrow>
          if name0 = [] then Inl (PlainError ''A command must have a name.'')
          else Inr (register_with new_Command name0 cmd cmdRegistry))"

text \<open>\<^verbatim>\<open>registerSingle\<close> and \<^verbatim>\<open>register\<close> of \<^verbatim>\<open>src/index.js\<close>.\<close>

definition registerSingle :: "cmd_spec \<Rightarrow> registry \<Rightarrow> exn + register_result" where
  "registerSingle cmd cmdRegistry =
     (case or_str (cs_name cmd) (cs_command cmd) of
        None \<Rightarrow> Inl (CommandError ''Commands must have names.'' ''MISSING_COMMAND_NAME'')
      | Some name0 \<Rightarrow>
          if name0 = [] then Inl (CommandError ''Commands must have names.'' ''MISSING_COMMAND_NAME'')
          else Inr (register_with resolveCommand name0 cmd cmdRegistry))"

datatype cmd_or_cmds = OneCmd cmd_spec | CmdArray "cmd_spec list"

text \<open>
  \<^verbatim>\<open>cmdOrCmds.forEach(registerSingle)\<close>: an exception stops the loop and leaves the
  earlier commands filed.
\<close>

fun forEach_registerSingle :: "cmd_spec list \<Rightarrow> registry \<Rightarrow> exn option \<times> registry" where
  "forEach_registerSingle [] cmdRegistry = (None, cmdRegistry)"
| "forEach_registerSingle (cmd # rest) cmdRegistry =
     (case registerSingle cmd cmdRegistry of
        Inl x \<Rightarrow> (Some x, cmdRegistry)
      | Inr r \<Rightarrow> forEach_registerSingle rest (registry_after r))"

definition src_register :: "cmd_or_cmds \<Rightarrow> registry \<Rightarrow> exn option \<times> registry" where
  "src_register cmdOrCmds cmdRegistry =
     (case cmdOrCmds of
        CmdArray cmds \<Rightarrow> forEach_registerSingle cmds cmdRegistry
      | OneCmd cmd \<Rightarrow>
          (case registerSingle cmd cmdRegistry of
             Inl x \<Rightarrow> (Some x, cmdRegistry)
           | Inr r \<Rightarrow> (None, registry_after r)))"

text \<open>
  \<^verbatim>\<open>filter\<close> of \<^verbatim>\<open>collections/map\<close>: a new map with the entries whose value passes the
  callback.
\<close>

definition filter_registry :: "(command \<Rightarrow> bool) \<Rightarrow> registry \<Rightarrow> registry" where
  "filter_registry P cmdRegistry =
     (\<lambda>k. case cmdRegistry k of None \<Rightarrow> None | Some c \<Rightarrow> if P c then Some c else None)"


definition deregister :: "string \<Rightarrow> bool \<Rightarrow> registry \<Rightarrow> registry" where
  "deregister name0 includeAlternatives cmdRegistry =
     (if includeAlternatives
      then filter_registry (\<lambda>command. originalName command \<noteq> Some name0) cmdRegistry
      else filter_registry (\<lambda>command. name command \<noteq> Some name0) cmdRegistry)"

section \<open>Parsing and dispatch\<close>

text \<open>
  What a call of \<^verbatim>\<open>parse\<close> does: the messages handed to \<^verbatim>\<open>send\<close>, in order, the
  handlers run with the object they received, and how the call ends: with an exception
  or with the value returned (\<open>None\<close> for \<^verbatim>\<open>undefined\<close>).
\<close>

datatype completion = Threw exn | Returned "argsObj option"

record outcome =
  sent :: "string option list"
  invoked :: "(string \<times> argsObj) list"
  completion :: completion

text \<open>
  \<^verbatim>\<open>args[index]\<close>: \<^verbatim>\<open>undefined\<close> beyond the end of the array, and where the array holds
  \<^verbatim>\<open>undefined\<close>.
\<close>

definition at_index :: "token list \<Rightarrow> nat \<Rightarrow> token" where
  "at_index args index = (if index < length args then args ! index else None)"

text \<open>
  The state of \<^verbatim>\<open>cmdSource.arguments.forEach\<close>: the object being filled, the flag
  \<^verbatim>\<open>success\<close> and the messages sent so far.
\<close>

record loop_state =
  obj :: argsObj
  ok :: bool
  msgs :: "string option list"

text \<open>
  The loop over the argument descriptors. \<open>keys\<close> gives the properties assigned for a
  descriptor, in order: the key itself in \<^verbatim>\<open>index.js\<close>, the camel-cased key and then the
  key itself in \<^verbatim>\<open>src/index.js\<close>. An exception raised by \<^verbatim>\<open>get\<close> ends the loop.
\<close>

fun forEach_argument ::
  "libraries \<Rightarrow> registry \<Rightarrow> pass_context \<Rightarrow> (string \<Rightarrow> string list) \<Rightarrow> token list
     \<Rightarrow> argument list \<Rightarrow> nat \<Rightarrow> loop_state \<Rightarrow> exn option \<times> loop_state" where
  "forEach_argument L cmdRegistry pass keys args [] index st = (None, st)"
| "forEach_argument L cmdRegistry pass keys args (arg # rest) index st =
     (case get L cmdRegistry arg (at_index args index) pass of
        Inl x \<Rightarrow> (Some x, st)
      | Inr (g, m) \<Rightarrow>
          forEach_argument L cmdRegistry pass keys args rest (Suc index)
            \<lparr> obj = (obj st) \<lparr> vals := fold (\<lambda>k f. f(k \<mapsto> result_value g)) (keys (key arg)) (vals (obj st)) \<rparr>,
              ok = (ok st \<and> success g),
              msgs = msgs st @ m \<rparr>)"

text \<open>\<^verbatim>\<open>Command.run\<close>: the handler, when there is one, is called with the object.\<close>

definition run :: "command \<Rightarrow> argsObj \<Rightarrow> (string \<times> argsObj) list" where
  "run this args = (case handler this of None \<Rightarrow> [] | Some h \<Rightarrow> [(h, args)])"

text \<open>The predicate gate in front of \<^verbatim>\<open>cmdSource.run(argsObj)\<close>.\<close>

definition run_if_checked :: "command \<Rightarrow> argsObj \<Rightarrow> (string \<times> argsObj) list" where
  "run_if_checked cmdSource a =
     (case check cmdSource of
        CheckArray cs \<Rightarrow> if list_all (\<lambda>c. c a) cs then run cmdSource a else []
      | CheckOne c \<Rightarrow> if c a then run cmdSource a else []
      | NoCheck \<Rightarrow> run cmdSource a)"

text \<open>The end of both \<^verbatim>\<open>parse\<close> functions, after the loop over the arguments.\<close>

definition finish :: "command \<Rightarrow> exn option \<times> loop_state \<Rightarrow> outcome" where
  "finish cmdSource r =
     (case r of
        (Some x, st) \<Rightarrow> \<lparr> sent = msgs st, invoked = [], completion = Threw x \<rparr>
      | (None, st) \<Rightarrow>
          if ok st
          then \<lparr> sent = msgs st, invoked = run_if_checked cmdSource (obj st),
                 completion = Returned (Some (obj st)) \<rparr>
          else \<lparr> sent = msgs st, invoked = [], completion = Returned None \<rparr>)"

subsection \<open>\<^verbatim>\<open>parse\<close> of \<^verbatim>\<open>index.js\<close>\<close>

text \<open>
  \<^verbatim>\<open>cmd.match(/(?:[^\s"]+|"[^"]*")+/g)\<close>: a match is a longest run of pieces, a piece
  being a run of characters other than white space and the double quote, or a span from
  a double quote to the next one. A white space character, or a double quote with no
  double quote after it, ends the match in progress and is skipped. \<open>inq\<close> tells that
  the scan is inside a quoted span, \<open>acc\<close> is the match in progress.
\<close>

definition is_plain :: "char \<Rightarrow> bool" where
  "is_plain c = (\<not> is_space c \<and> c \<noteq> CHR 0x22)"

fun scan :: "bool \<Rightarrow> string \<Rightarrow> string \<Rightarrow> string list" where
  "scan inq acc [] = (if acc = [] then [] else [acc])"
| "scan True acc (c # r) = (if c = CHR 0x22 then scan False (acc @ [c]) r else scan True (acc @ [c]) r)"
| "scan False acc (c # r) =
     (if is_plain c then scan False (acc @ [c]) r
      else if c = CHR 0x22 \<and> CHR 0x22 \<in> set r then scan True (acc @ [c]) r
      else (if acc = [] then [] else [acc]) @ scan False [] r)"

text \<open>The result of \<^verbatim>\<open>match\<close>: \<^verbatim>\<open>null\<close> (\<open>None\<close>) when nothing matches.\<close>

definition match_parts :: "string \<Rightarrow> string list option" where
  "match_parts cmd = (let ms = scan False [] cmd in if ms = [] then None else Some ms)"

definition parse :: "libraries \<Rightarrow> registry \<Rightarrow> string \<Rightarrow> pass_context \<Rightarrow> outcome" where
  "parse L cmdRegistry command pass =
     (let cmd = trim command
      in case match_parts cmd of
           None \<Rightarrow>
             \<lparr> sent = [], invoked = [],
               completion = Threw (TypeError ''Cannot read property length of null'') \<rparr>
         | Some [] \<Rightarrow> \<lparr> sent = [], invoked = [], completion = Returned None \<rparr>
         | Some (part0 # args) \<Rightarrow>
             (case cmdRegistry part0 of
                None \<Rightarrow> \<lparr> sent = [], invoked = [], completion = Returned None \<rparr>
              | Some cmdSource \<Rightarrow>
                  finish cmdSource
                    (forEach_argument L cmdRegistry pass (\<lambda>k. [k]) (map Some args)
                       (arguments cmdSource) 0
                       \<lparr> obj = \<lparr> ctx = pass, vals = Map.empty \<rparr>, ok = True, msgs = [] \<rparr>)))"

subsection \<open>\<^verbatim>\<open>parse\<close> of \<^verbatim>\<open>src/index.js\<close>\<close>

text \<open>
  \<open>Modelled from the spec:\<close> the argument classes of \<^verbatim>\<open>./arguments\<close>, which
  \<^verbatim>\<open>src/index.js\<close> requires and which are not among the sources. The spec describes one
  hierarchy of argument types, the one \<^verbatim>\<open>index.js\<close> implements, so
  \<^verbatim>\<open>argument.get(args[index], pass, cmdRegistry)\<close> is the \<^verbatim>\<open>get\<close> above, with the registry
  handed over.
\<close>

text \<open>\<^verbatim>\<open>cmd.includes(" ") ? cmd.indexOf(" ") : cmd.length\<close>\<close>

definition firstSpace :: "string \<Rightarrow> nat" where
  "firstSpace cmd =
     (if CHR 0x20 \<in> set cmd then length (takeWhile (\<lambda>c. c \<noteq> CHR 0x20) cmd) else length cmd)"

text \<open>\<^verbatim>\<open>"commands." + (category ? category + "." : "") + originalName\<close>\<close>

definition cmdPerm :: "command \<Rightarrow> string" where
  "cmdPerm cmdSource =
     ''commands.''
     @ (case category cmdSource of None \<Rightarrow> [] | Some cat \<Rightarrow> if cat \<noteq> [] then cat @ ''.'' else [])
     @ (case originalName cmdSource of None \<Rightarrow> ''undefined'' | Some n \<Rightarrow> n)"

text \<open>
  The permission gate: it rejects when the context has a \<^verbatim>\<open>testPermission\<close>, the command
  is not permissionless and the test refuses the permission string.
\<close>

definition gate_rejects :: "pass_context \<Rightarrow> command \<Rightarrow> bool" where
  "gate_rejects pass cmdSource =
     (case testPermission pass of
        None \<Rightarrow> False
      | Some test \<Rightarrow> \<not> permissionless cmdSource \<and> \<not> test (cmdPerm cmdSource))"

text \<open>The message of a rejection, sent only when the context can localize and send.\<close>

definition denial :: "pass_context \<Rightarrow> string option list" where
  "denial pass =
     (case localize pass of
        None \<Rightarrow> []
      | Some loc \<Rightarrow> if send pass then [loc ''no_permission'' NoParams] else [])"

text \<open>\<^verbatim>\<open>cmd.substr(0, firstSpace)\<close> and the tokens \<^verbatim>\<open>split(cmd.substr(firstSpace + 1), n)\<close>.\<close>

definition cmdStr :: "string \<Rightarrow> string" where
  "cmdStr cmd = take (firstSpace cmd) cmd"

definition split_args :: "libraries \<Rightarrow> string \<Rightarrow> command \<Rightarrow> token list" where
  "split_args L cmd cmdSource =
     split L (drop (firstSpace cmd + 1) cmd) (length (arguments cmdSource))"

definition src_parse :: "libraries \<Rightarrow> registry \<Rightarrow> string \<Rightarrow> pass_context \<Rightarrow> outcome" where
  "src_parse L cmdRegistry command pass =
     (let cmd = trim command
      in if cmdStr cmd = [] then \<lparr> sent = [], invoked = [], completion = Returned None \<rparr>
         else
           (case cmdRegistry (cmdStr cmd) of
              None \<Rightarrow> \<lparr> sent = [], invoked = [], completion = Returned None \<rparr>
            | Some cmdSource \<Rightarrow>
                (let args = split_args L cmd cmdSource;
                     argsObj = \<lparr> ctx = pass, vals = Map.empty \<rparr>;
                     rejected = gate_rejects pass cmdSource
                 in finish cmdSource
                      (forEach_argument L cmdRegistry pass (\<lambda>k. [camelCase L k, k]) args
                         (arguments cmdSource) 0
                         \<lparr> obj = argsObj, ok = \<not> rejected,
                           msgs = (if rejected then denial pass else []) \<rparr>))))"

section \<open>Statements about the attempts of one call\<close>

text \<open>
  The results of \<^verbatim>\<open>get\<close> for the descriptors of a command, the first one at position
  \<open>index\<close> of the tokens.
\<close>

definition attempts ::
  "libraries \<Rightarrow> registry \<Rightarrow> pass_context \<Rightarrow> token list \<Rightarrow> nat \<Rightarrow> argument list
     \<Rightarrow> (exn + get_result \<times> string option list) list" where
  "attempts L cmdRegistry pass args index as =
     map (\<lambda>(i, a). get L cmdRegistry a (at_index args i) pass) (enumerate index as)"

definition succeeds :: "exn + get_result \<times> string option list \<Rightarrow> bool" where
  "succeeds r = (case r of Inl x \<Rightarrow> False | Inr (g, m) \<Rightarrow> success g)"


text \<open>
  The value that the descriptors \<open>as\<close>, with the results \<open>rs\<close> of their \<^verbatim>\<open>get\<close>, leave
  under the property \<open>k\<close> of the object: the value of the last descriptor that assigns
  \<open>k\<close>, and nothing when no descriptor does.
\<close>

definition assigned ::
  "(string \<Rightarrow> string list) \<Rightarrow> argument list \<Rightarrow> (exn + get_result \<times> string option list) list
     \<Rightarrow> string \<rightharpoonup> jsval" where
  "assigned keys as rs k =
     (case List.find (\<lambda>(a, r). k \<in> set (keys (key a))) (rev (zip as rs)) of
        None \<Rightarrow> None
      | Some (a, r) \<Rightarrow> (case r of Inl x \<Rightarrow> None | Inr (g, m) \<Rightarrow> Some (result_value g)))"

text \<open>The aliases declared by a specification.\<close>

definition declared_aliases :: "cmd_spec \<Rightarrow> string list" where
  "declared_aliases cmd = (case cs_aliases cmd of Some a \<Rightarrow> a | None \<Rightarrow> [])"


section \<open>Example inputs\<close>

text \<open>An argument specification that sets nothing but its key.\<close>

definition plain_arg :: "string \<Rightarrow> arg_spec" where
  "plain_arg k = \<lparr>
     spec_type = None, spec_key = k, spec_default = Undefined, spec_required = False,
     spec_choices = None, spec_description = None, minLength = None, maxLength = None,
     spec_matches = None, spec_min = None, spec_max = None, spec_allowAlias = None,
     spec_custom = None \<rparr>"

text \<open>A command specification that sets nothing but its name.\<close>

definition plain_cmd :: "string \<Rightarrow> cmd_spec" where
  "plain_cmd n = \<lparr>
     cs_name = Some n, cs_command = None, cs_originalName = None, cs_description = None,
     cs_describe = None, cs_longDescription = None, cs_arguments = None, cs_aliases = None,
     cs_check = NoCheck, cs_handler = None, cs_permissionless = False, cs_category = None \<rparr>"

text \<open>
  A host context whose \<^verbatim>\<open>localize\<close> answers every code with the code itself and that
  can send; the same context with a permission test that refuses everything.
\<close>

definition example_pass :: pass_context where
  "example_pass = \<lparr> localize = Some (\<lambda>c p. Some c), send = True, testPermission = None,
     extra = Map.empty \<rparr>"


text \<open>
  Libraries for the examples: no duration parses, the text after the command is one token
  (no token when it is empty), keys are left as they are.
\<close>

definition example_libraries :: libraries where
  "example_libraries = \<lparr> dur = (\<lambda>s. None), split = (\<lambda>s n. if s = [] then [] else [Some s]),
     camelCase = (\<lambda>k. k) \<rparr>"

text \<open>
  Four commands: \<^verbatim>\<open>ping\<close> takes no argument; \<^verbatim>\<open>roll\<close> takes a required integer;
  \<^verbatim>\<open>ban\<close>, with the alias \<^verbatim>\<open>b\<close>, takes a required user; \<^verbatim>\<open>echo\<close>, with the alias
  \<^verbatim>\<open>e\<close>, takes a string and has a predicate that refuses everything.
\<close>

definition ping_spec :: cmd_spec where
  "ping_spec = (plain_cmd ''ping'') \<lparr> cs_handler := Some ''pingHandler'' \<rparr>"

definition roll_spec :: cmd_spec where
  "roll_spec = (plain_cmd ''roll'') \<lparr>
     cs_arguments := Some [ArgSpec ((plain_arg ''sides'')
        \<lparr> spec_type := Some ''integer'', spec_required := True \<rparr>)],
     cs_handler := Some ''rollHandler'' \<rparr>"

definition ban_spec :: cmd_spec where
  "ban_spec = (plain_cmd ''ban'') \<lparr>
     cs_arguments := Some [ArgSpec ((plain_arg ''target'')
        \<lparr> spec_type := Some ''user'', spec_required := True \<rparr>)],
     cs_aliases := Some [''b''],
     cs_handler := Some ''banHandler'' \<rparr>"

definition echo_spec :: cmd_spec where
  "echo_spec = (plain_cmd ''echo'') \<lparr>
     cs_arguments := Some [ArgSpec ((plain_arg ''text'') \<lparr> spec_type := Some ''string'' \<rparr>)],
     cs_aliases := Some [''e''],
     cs_check := CheckOne (\<lambda>a. False),
     cs_handler := Some ''echoHandler'' \<rparr>"


text \<open>The registry after registering the four commands with \<^verbatim>\<open>registerSingle\<close>.\<close>

definition example_registry :: registry where
  "example_registry =
     snd (forEach_registerSingle [ping_spec, roll_spec, ban_spec, echo_spec] Map.empty)"

section \<open>Facts about the argument classes\<close>

lemma upper_codes:
  "toUpperCase ''command_argument_nonexistent'' = ''COMMAND_ARGUMENT_NONEXISTENT''"
  "toUpperCase ''argument_required'' = ''ARGUMENT_REQUIRED''"
  "toUpperCase ''argument_unavailable_choice'' = ''ARGUMENT_UNAVAILABLE_CHOICE''"
  "toUpperCase ''string_argument_too_short'' = ''STRING_ARGUMENT_TOO_SHORT''"
  "toUpperCase ''integer_argument_too_high'' = ''INTEGER_ARGUMENT_TOO_HIGH''"
  "toUpperCase ''integer_argument_invalid'' = ''INTEGER_ARGUMENT_INVALID''"
  by code_simp+

lemma return_error_code:
  "localize args = Some loc \<Longrightarrow>
   \<exists>e. return_error arg args c v = Inr (Err e) \<and> code e = toUpperCase c \<and> sourceArg e = cls arg"
  by (simp add: return_error_def new_InvalidArgumentError_def Let_def)

lemma cls_new [simp]:
  "cls (new_Argument a) = GenericClass" "cls (new_StringArgument a) = StringClass"
  "cls (new_UserArgument a) = UserClass" "cls (new_SubredditArgument a) = SubredditClass"
  "cls (new_command a) = CommandClass" "cls (new_custom a) = CustomClass"
  "cls (new_duration a) = DurationClass" "cls (new_integer a) = IntegerClass"
  by (simp_all add: new_Argument_def new_StringArgument_def new_UserArgument_def
      new_SubredditArgument_def new_command_def new_custom_def new_duration_def new_integer_def)

lemma base_fields_new [simp]:
  "default_value (new_StringArgument a) = spec_default a" "choices (new_StringArgument a) = spec_choices a"
  "default_value (new_UserArgument a) = spec_default a" "choices (new_UserArgument a) = spec_choices a"
  "default_value (new_integer a) = spec_default a" "choices (new_integer a) = spec_choices a"
  "key (new_StringArgument a) = spec_key a" "key (new_UserArgument a) = spec_key a"
  "key (new_integer a) = spec_key a"
  "required (new_UserArgument a) = spec_required a" "required (new_integer a) = spec_required a"
  by (simp_all add: new_Argument_def new_StringArgument_def new_UserArgument_def new_integer_def)

lemma exec_group2_undefined:
  "exec_group2 CHR ''u'' Undefined = ''undefined''" "exec_group2 CHR ''r'' Undefined = ''undefined''"
  by code_simp+

lemma test_undefined: "test_user ''undefined''" "test_subreddit ''undefined''"
  by code_simp+

lemma user_absent:
  "cls arg = UserClass \<Longrightarrow> getValue L reg arg None args = Inr (Str ''undefined'')"
  by (simp add: getValue_def UserArgument_getValue_def StringArgument_getValue_def
      exec_group2_undefined test_undefined)

lemma subreddit_absent:
  "cls arg = SubredditClass \<Longrightarrow> getValue L reg arg None args = Inr (Str ''undefined'')"
  by (simp add: getValue_def SubredditArgument_getValue_def StringArgument_getValue_def
      exec_group2_undefined test_undefined)

text \<open>
  The classes that test for \<^verbatim>\<open>undefined\<close>, and the generic class, return \<^verbatim>\<open>undefined\<close>
  for a missing token; so does the custom class when the host function returns normally.
\<close>

lemma checked_classes_absent:
  "cls arg \<notin> {UserClass, SubredditClass, CustomClass} \<Longrightarrow>
   getValue L reg arg None args = Inr Undefined"
  by (cases "cls arg")
     (simp_all add: getValue_def Argument_getValue_def StringArgument_getValue_def
        command_getValue_def duration_getValue_def integer_getValue_def)

lemma custom_absent:
  "cls arg = CustomClass \<Longrightarrow> custom arg = Some f \<Longrightarrow> f None = None \<Longrightarrow>
   getValue L reg arg None args = Inr Undefined"
  by (simp add: getValue_def custom_getValue_def)

lemma getWithDefault_plain:
  "\<not> truthy (default_value arg) \<Longrightarrow> choices arg = None \<Longrightarrow>
   getValue L reg arg v args = Inr val \<Longrightarrow> val \<noteq> Undefined \<Longrightarrow>
   getWithDefault L reg arg v args = Inr val"
  by (simp add: getWithDefault_def defaulter_def)

lemma get_failure:
  "getWithDefault L reg arg v args = Inr (Err e) \<Longrightarrow> send args \<Longrightarrow>
   get L reg arg v args = Inr (\<lparr> success = False, result_value = Undefined \<rparr>, [message e])"
  by (simp add: get_def)

lemma get_success:
  "getWithDefault L reg arg v args = Inr val \<Longrightarrow> (\<And>e. val \<noteq> Err e) \<Longrightarrow>
   get L reg arg v args = Inr (\<lparr> success = True, result_value = val \<rparr>, [])"
  by (cases val) (auto simp: get_def)

text \<open>
  A required argument of a class that tests for \<^verbatim>\<open>undefined\<close> fails with
  \<^verbatim>\<open>ARGUMENT_REQUIRED\<close> when its token is missing.
\<close>

lemma required_absent_checked_classes:
  assumes "required arg" and "cls arg \<notin> {UserClass, SubredditClass, CustomClass}"
    and "localize args = Some loc" and "send args"
  shows "\<exists>e. getWithDefault L reg arg None args = Inr (Err e) \<and> code e = ''ARGUMENT_REQUIRED''
           \<and> get L reg arg None args
               = Inr (\<lparr> success = False, result_value = Undefined \<rparr>, [message e])"
proof -
  from return_error_code[OF assms(3), of arg "''argument_required''" None]
  obtain e where e: "return_error arg args ''argument_required'' None = Inr (Err e)"
    "code e = ''ARGUMENT_REQUIRED''"
    by (auto simp: upper_codes)
  have "getWithDefault L reg arg None args = Inr (Err e)"
    using assms(1) checked_classes_absent[OF assms(2)] e by (simp add: getWithDefault_def)
  with e get_failure[OF _ assms(4)] show ?thesis by blast
qed

lemma get_user_absent:
  "cls arg = UserClass \<or> cls arg = SubredditClass \<Longrightarrow> \<not> truthy (default_value arg) \<Longrightarrow>
   choices arg = None \<Longrightarrow>
   get L reg arg None pass = Inr (\<lparr> success = True, result_value = Str ''undefined'' \<rparr>, [])"
  by (auto simp: get_def getWithDefault_def user_absent subreddit_absent defaulter_def)

text \<open>
  Claim C2: every argument class returns \<^verbatim>\<open>undefined\<close> from \<^verbatim>\<open>getValue\<close> when the raw
  token is \<^verbatim>\<open>undefined\<close>. The user and the subreddit class do not: they hand the
  \<^verbatim>\<open>undefined\<close> of the string class to \<^verbatim>\<open>exec\<close>, which reads it as the text
  \<^verbatim>\<open>undefined\<close>, a well-formed name of nine characters, and return that string.
\<close>

theorem absent_token_user_subreddit:
  "getValue L reg (new_UserArgument a) None args = Inr (Str ''undefined'')
   \<and> getValue L reg (new_SubredditArgument a) None args = Inr (Str ''undefined'')"
  by (simp add: user_absent subreddit_absent)

subsection \<open>Bounds\<close>

lemma string_bounds:
  assumes "minLength a = Some 3"
    and "case maxLength a of None \<Rightarrow> True | Some m \<Rightarrow> m = 0 \<or> 4 < m"
    and "case spec_matches a of None \<Rightarrow> True | Some t \<Rightarrow> t s3 \<and> t s4"
    and "localize args = Some loc"
    and "length s3 = 3" and "length s4 = 4"
  shows "(\<exists>e. getValue L reg (new_StringArgument a) (Some s3) args = Inr (Err e)
            \<and> code e = ''STRING_ARGUMENT_TOO_SHORT'')
         \<and> getValue L reg (new_StringArgument a) (Some s4) args = Inr (Str s4)"
proof -
  let ?arg = "new_StringArgument a"
  have mn: "min_bound ?arg = Finite 3"
    using assms(1) by (simp add: new_StringArgument_def or_num_def)
  have mx: "\<not> num_ge 3 (max_bound ?arg)" "\<not> num_ge 4 (max_bound ?arg)"
    using assms(2) by (auto simp: new_StringArgument_def or_num_def split: option.splits)
  have mt: "matches ?arg s3" "matches ?arg s4"
    using assms(3) by (auto simp: new_StringArgument_def split: option.splits)
  from return_error_code[OF assms(4), of ?arg "''string_argument_too_short''" "Some s3"]
  obtain e where e: "return_error ?arg args ''string_argument_too_short'' (Some s3) = Inr (Err e)"
    "code e = ''STRING_ARGUMENT_TOO_SHORT''"
    by (auto simp: upper_codes)
  have "getValue L reg ?arg (Some s3) args = Inr (Err e)"
    using mn mx mt e assms(5) by (simp add: getValue_def StringArgument_getValue_def)
  moreover have "getValue L reg ?arg (Some s4) args = Inr (Str s4)"
    using mn mx mt assms(6) by (simp add: getValue_def StringArgument_getValue_def)
  ultimately show ?thesis using e by blast
qed

lemma parseInt_10: "parseInt ''10'' = Some 10"
  by code_simp

lemma parseInt_9: "parseInt ''9'' = Some 9"
  by code_simp

lemma integer_bounds:
  assumes "spec_max b = Some 10"
    and "case spec_min b of None \<Rightarrow> True | Some m \<Rightarrow> m = 0 \<or> m < 9"
    and "localize args = Some loc"
  shows "(\<exists>e. getValue L reg (new_integer b) (Some ''10'') args = Inr (Err e)
            \<and> code e = ''INTEGER_ARGUMENT_TOO_HIGH'')
         \<and> getValue L reg (new_integer b) (Some ''9'') args = Inr (Num 9)"
proof -
  let ?arg = "new_integer b"
  have mx: "max_bound ?arg = Finite 10"
    using assms(1) by (simp add: new_integer_def or_num_def)
  have mn: "\<not> num_le 9 (min_bound ?arg)"
    using assms(2) by (auto simp: new_integer_def or_num_def split: option.splits)
  from return_error_code[OF assms(3), of ?arg "''integer_argument_too_high''" "Some ''10''"]
  obtain e where e: "return_error ?arg args ''integer_argument_too_high'' (Some ''10'') = Inr (Err e)"
    "code e = ''INTEGER_ARGUMENT_TOO_HIGH''"
    by (auto simp: upper_codes)
  have "getValue L reg ?arg (Some ''10'') args = Inr (Err e)"
    using mx e by (simp add: getValue_def integer_getValue_def parseInt_10)
  moreover have "getValue L reg ?arg (Some ''9'') args = Inr (Num 9)"
    using mx mn by (simp add: getValue_def integer_getValue_def parseInt_9)
  ultimately show ?thesis using e by blast
qed

text \<open>
  Claim C5: the bounds are exclusive. With \<^verbatim>\<open>minLength = 3\<close> (and a maximum and a
  pattern that let both tokens through) a token of length 3 fails validation with
  \<^verbatim>\<open>STRING_ARGUMENT_TOO_SHORT\<close> and a token of length 4 validates to itself; with
  \<^verbatim>\<open>max = 10\<close> (and a minimum below 9) the token \<^verbatim>\<open>10\<close> fails with
  \<^verbatim>\<open>INTEGER_ARGUMENT_TOO_HIGH\<close> and the token \<^verbatim>\<open>9\<close> validates to 9. The descriptors
  have no default and no choices, and the context can localize and send.
\<close>

theorem bounds_are_exclusive:
  assumes "minLength a = Some 3"
    and "case maxLength a of None \<Rightarrow> True | Some m \<Rightarrow> m = 0 \<or> 4 < m"
    and "case spec_matches a of None \<Rightarrow> True | Some t \<Rightarrow> t s3 \<and> t s4"
    and "length s3 = 3" and "length s4 = 4"
    and "spec_max b = Some 10"
    and "case spec_min b of None \<Rightarrow> True | Some m \<Rightarrow> m = 0 \<or> m < 9"
    and "\<not> truthy (spec_default a)" and "spec_choices a = None"
    and "\<not> truthy (spec_default b)" and "spec_choices b = None"
    and "localize args = Some loc" and "send args"
  shows "(\<exists>e. getWithDefault L reg (new_StringArgument a) (Some s3) args = Inr (Err e)
            \<and> code e = ''STRING_ARGUMENT_TOO_SHORT''
            \<and> get L reg (new_StringArgument a) (Some s3) args
                = Inr (\<lparr> success = False, result_value = Undefined \<rparr>, [message e]))
         \<and> get L reg (new_StringArgument a) (Some s4) args
             = Inr (\<lparr> success = True, result_value = Str s4 \<rparr>, [])
         \<and> (\<exists>e. getWithDefault L reg (new_integer b) (Some ''10'') args = Inr (Err e)
            \<and> code e = ''INTEGER_ARGUMENT_TOO_HIGH''
            \<and> get L reg (new_integer b) (Some ''10'') args
                = Inr (\<lparr> success = False, result_value = Undefined \<rparr>, [message e]))
         \<and> get L reg (new_integer b) (Some ''9'') args
             = Inr (\<lparr> success = True, result_value = Num 9 \<rparr>, [])"
proof -
  from string_bounds[OF assms(1,2,3) assms(12) assms(4,5), of L reg]
  obtain e where e: "getValue L reg (new_StringArgument a) (Some s3) args = Inr (Err e)"
    "code e = ''STRING_ARGUMENT_TOO_SHORT''"
    and s4: "getValue L reg (new_StringArgument a) (Some s4) args = Inr (Str s4)"
    by blast
  from integer_bounds[OF assms(6,7) assms(12), of L reg]
  obtain e' where e': "getValue L reg (new_integer b) (Some ''10'') args = Inr (Err e')"
    "code e' = ''INTEGER_ARGUMENT_TOO_HIGH''"
    and i9: "getValue L reg (new_integer b) (Some ''9'') args = Inr (Num 9)"
    by blast
  have da: "\<not> truthy (default_value (new_StringArgument a))" "choices (new_StringArgument a) = None"
    using assms(8,9) by simp_all
  have db: "\<not> truthy (default_value (new_integer b))" "choices (new_integer b) = None"
    using assms(10,11) by simp_all
  have 1: "getWithDefault L reg (new_StringArgument a) (Some s3) args = Inr (Err e)"
    by (rule getWithDefault_plain[OF da e(1)]) simp
  have 2: "getWithDefault L reg (new_StringArgument a) (Some s4) args = Inr (Str s4)"
    by (rule getWithDefault_plain[OF da s4]) simp
  have 3: "getWithDefault L reg (new_integer b) (Some ''10'') args = Inr (Err e')"
    by (rule getWithDefault_plain[OF db e'(1)]) simp
  have 4: "getWithDefault L reg (new_integer b) (Some ''9'') args = Inr (Num 9)"
    by (rule getWithDefault_plain[OF db i9]) simp
  show ?thesis
    using 1 e(2) get_failure[OF 1 assms(13)] get_success[OF 2]
      3 e'(2) get_failure[OF 3 assms(13)] get_success[OF 4]
    by auto
qed

theorem bounds_are_exclusive_witness:
  "(\<exists>e. getWithDefault example_libraries Map.empty
            (new_StringArgument ((plain_arg ''word'') \<lparr> minLength := Some 3 \<rparr>)) (Some ''abc'') example_pass
              = Inr (Err e)
          \<and> code e = ''STRING_ARGUMENT_TOO_SHORT''
          \<and> get example_libraries Map.empty
              (new_StringArgument ((plain_arg ''word'') \<lparr> minLength := Some 3 \<rparr>)) (Some ''abc'') example_pass
                = Inr (\<lparr> success = False, result_value = Undefined \<rparr>, [message e]))
   \<and> get example_libraries Map.empty
         (new_StringArgument ((plain_arg ''word'') \<lparr> minLength := Some 3 \<rparr>)) (Some ''abcd'') example_pass
           = Inr (\<lparr> success = True, result_value = Str ''abcd'' \<rparr>, [])
   \<and> (\<exists>e. getWithDefault example_libraries Map.empty
            (new_integer ((plain_arg ''count'') \<lparr> spec_max := Some 10 \<rparr>)) (Some ''10'') example_pass
              = Inr (Err e)
          \<and> code e = ''INTEGER_ARGUMENT_TOO_HIGH''
          \<and> get example_libraries Map.empty
              (new_integer ((plain_arg ''count'') \<lparr> spec_max := Some 10 \<rparr>)) (Some ''10'') example_pass
                = Inr (\<lparr> success = False, result_value = Undefined \<rparr>, [message e]))
   \<and> get example_libraries Map.empty
         (new_integer ((plain_arg ''count'') \<lparr> spec_max := Some 10 \<rparr>)) (Some ''9'') example_pass
           = Inr (\<lparr> success = True, result_value = Num 9 \<rparr>, [])"
  by (rule bounds_are_exclusive[where loc = "\<lambda>c p. Some c"])
     (simp_all add: plain_arg_def example_pass_def)

subsection \<open>Choices\<close>

lemma same_value_zero_Err: "\<not> same_value_zero x (Err e)"
  by (cases x) simp_all

lemma includes_Err: "\<not> array_includes cs (Err e)"
  by (simp add: array_includes_def list_ex_iff same_value_zero_Err)

text \<open>
  Claim C10: with choices configured and no truthy default, a token that fails the parse
  of its class is reported with \<^verbatim>\<open>ARGUMENT_UNAVAILABLE_CHOICE\<close>: the error object is
  what is looked up in the choices, it is never among them, and the error of the class is
  dropped. The context can localize and send.
\<close>

theorem choices_mask_parse_error:
  assumes "choices arg = Some cs" and "\<not> truthy (default_value arg)"
    and "getValue L reg arg v args = Inr (Err e)"
    and "localize args = Some loc" and "send args"
  shows "\<exists>e'. getWithDefault L reg arg v args = Inr (Err e')
           \<and> code e' = ''ARGUMENT_UNAVAILABLE_CHOICE''
           \<and> get L reg arg v args
               = Inr (\<lparr> success = False, result_value = Undefined \<rparr>, [message e'])"
proof -
  from return_error_code[OF assms(4), of arg "''argument_unavailable_choice''" v]
  obtain e' where e': "return_error arg args ''argument_unavailable_choice'' v = Inr (Err e')"
    "code e' = ''ARGUMENT_UNAVAILABLE_CHOICE''"
    by (auto simp: upper_codes)
  have "getWithDefault L reg arg v args = Inr (Err e')"
    using assms(1,2,3) e'(1) by (simp add: getWithDefault_def defaulter_def includes_Err)
  with e'(2) get_failure[OF _ assms(5)] show ?thesis by blast
qed

lemma parseInt_abc: "parseInt ''abc'' = None"
  by code_simp

lemma integer_abc:
  "getValue L reg (new_integer a) (Some ''abc'') example_pass
     = Inr (Err \<lparr> message = Some ''integer_argument_invalid'', code = ''INTEGER_ARGUMENT_INVALID'',
                  sourceArg = IntegerClass \<rparr>)"
  by (simp add: getValue_def integer_getValue_def parseInt_abc return_error_def
      new_InvalidArgumentError_def example_pass_def upper_codes)

theorem choices_mask_parse_error_witness:
  "getValue example_libraries Map.empty
       (new_integer ((plain_arg ''count'') \<lparr> spec_choices := Some [Num 1, Num 2] \<rparr>))
       (Some ''abc'') example_pass
     = Inr (Err \<lparr> message = Some ''integer_argument_invalid'', code = ''INTEGER_ARGUMENT_INVALID'',
                  sourceArg = IntegerClass \<rparr>)
   \<and> (\<exists>e'. getWithDefault example_libraries Map.empty
              (new_integer ((plain_arg ''count'') \<lparr> spec_choices := Some [Num 1, Num 2] \<rparr>))
              (Some ''abc'') example_pass = Inr (Err e')
           \<and> code e' = ''ARGUMENT_UNAVAILABLE_CHOICE''
           \<and> get example_libraries Map.empty
                (new_integer ((plain_arg ''count'') \<lparr> spec_choices := Some [Num 1, Num 2] \<rparr>))
                (Some ''abc'') example_pass
               = Inr (\<lparr> success = False, result_value = Undefined \<rparr>, [message e']))"
proof
  show g: "getValue example_libraries Map.empty
       (new_integer ((plain_arg ''count'') \<lparr> spec_choices := Some [Num 1, Num 2] \<rparr>))
       (Some ''abc'') example_pass
     = Inr (Err \<lparr> message = Some ''integer_argument_invalid'', code = ''INTEGER_ARGUMENT_INVALID'',
                  sourceArg = IntegerClass \<rparr>)"
    by (rule integer_abc)
  show "\<exists>e'. getWithDefault example_libraries Map.empty
              (new_integer ((plain_arg ''count'') \<lparr> spec_choices := Some [Num 1, Num 2] \<rparr>))
              (Some ''abc'') example_pass = Inr (Err e')
           \<and> code e' = ''ARGUMENT_UNAVAILABLE_CHOICE''
           \<and> get example_libraries Map.empty
                (new_integer ((plain_arg ''count'') \<lparr> spec_choices := Some [Num 1, Num 2] \<rparr>))
                (Some ''abc'') example_pass
               = Inr (\<lparr> success = False, result_value = Undefined \<rparr>, [message e'])"
    by (rule choices_mask_parse_error[OF _ _ g, where loc = "\<lambda>c p. Some c"])
       (simp_all add: plain_arg_def example_pass_def)
qed

section \<open>Facts about registration\<close>

lemma forEach_alias_registry:
  "snd (forEach_alias mk n alias xs (cmd, reg)) k =
     (if k \<in> set xs
      then Some (mk (cmd \<lparr> cs_name := Some k, cs_originalName := Some n,
                           cs_aliases := Some (filter (\<lambda>name2. name2 \<noteq> k) alias) \<rparr>))
      else reg k)"
  by (induction xs arbitrary: cmd reg) (auto simp: Let_def)

lemma forEach_alias_cmd:
  "xs \<noteq> [] \<Longrightarrow>
   fst (forEach_alias mk n alias xs (cmd, reg)) =
     cmd \<lparr> cs_name := Some (last xs), cs_originalName := Some n,
           cs_aliases := Some (filter (\<lambda>name2. name2 \<noteq> last xs) alias) \<rparr>"
proof (induction xs arbitrary: cmd reg)
  case Nil
  then show ?case by simp
next
  case (Cons x xs)
  show ?case
  proof (cases "xs = []")
    case True
    then show ?thesis by (simp add: Let_def)
  next
    case False
    with Cons.IH show ?thesis by (simp add: Let_def)
  qed
qed

lemma register_with_registry:
  "registry_after (register_with mk n cmd reg) k =
     (if k \<in> set (declared_aliases cmd) \<or> k = n
      then Some (mk (cmd \<lparr> cs_name := Some k, cs_originalName := Some n,
                   cs_aliases := Some (filter (\<lambda>name2. name2 \<noteq> k) (declared_aliases cmd @ [n])) \<rparr>))
      else reg k)"
  using forEach_alias_registry[of mk n "declared_aliases cmd @ [n]" "declared_aliases cmd @ [n]" cmd reg k]
  by (auto simp: register_with_def declared_aliases_def Let_def split: prod.splits)

lemma register_with_cmd:
  "cmd_after (register_with mk n cmd reg) =
     cmd \<lparr> cs_name := Some n, cs_originalName := Some n,
           cs_aliases := Some (filter (\<lambda>name2. name2 \<noteq> n) (declared_aliases cmd)) \<rparr>"
  using forEach_alias_cmd[of "declared_aliases cmd @ [n]" mk n "declared_aliases cmd @ [n]" cmd reg]
  by (auto simp: register_with_def declared_aliases_def Let_def split: prod.splits)

lemma register_with_alias_array:
  "alias_array (register_with mk n cmd reg) = declared_aliases cmd @ [n]"
  by (auto simp: register_with_def declared_aliases_def Let_def split: prod.splits)


lemma new_Command_originalName:
  "n \<noteq> [] \<Longrightarrow>
   originalName (new_Command (cmd \<lparr> cs_name := k, cs_originalName := Some n, cs_aliases := a \<rparr>)) = Some n"
  by (simp add: new_Command_def findName_def or_str_def Let_def)

lemma resolveCommand_names:
  "name (resolveCommand c) = name (new_Command c)"
  "originalName (resolveCommand c) = originalName (new_Command c)"
  by (simp_all add: resolveCommand_def)

lemma registered_form:
  assumes "register cmd reg = Inr r \<or> registerSingle cmd reg = Inr r"
  shows "\<exists>n mk. findName cmd = Some n \<and> n \<noteq> [] \<and> r = register_with mk n cmd reg
           \<and> (\<forall>c. name (mk c) = name (new_Command c))
           \<and> (\<forall>c. originalName (mk c) = originalName (new_Command c))"
  using assms
proof
  assume "register cmd reg = Inr r"
  then have "findName cmd = Some (the (findName cmd)) \<and> the (findName cmd) \<noteq> []
      \<and> r = register_with new_Command (the (findName cmd)) cmd reg"
    by (auto simp: register_def split: option.splits if_splits)
  then show ?thesis by blast
next
  assume "registerSingle cmd reg = Inr r"
  then have "findName cmd = Some (the (findName cmd)) \<and> the (findName cmd) \<noteq> []
      \<and> r = register_with resolveCommand (the (findName cmd)) cmd reg"
    by (auto simp: registerSingle_def findName_def split: option.splits if_splits)
  then show ?thesis using resolveCommand_names by blast
qed





lemma deregister_all:
  assumes "\<forall>k \<in> set (n # A). \<exists>c. reg k = Some c \<and> originalName c = Some n"
  shows "\<forall>k \<in> set (n # A). deregister n True reg k = None"
  using assms by (auto simp: deregister_def filter_registry_def)

lemma register_originalName:
  assumes "register cmd reg = Inr r \<or> registerSingle cmd reg = Inr r"
    and "k \<in> set (declared_aliases cmd) \<or> findName cmd = Some k"
  shows "\<exists>c. registry_after r k = Some c \<and> originalName c = findName cmd"
proof -
  from registered_form[OF assms(1)]
  obtain n mk where n: "findName cmd = Some n" "n \<noteq> []" "r = register_with mk n cmd reg"
    "\<forall>c. name (mk c) = name (new_Command c)" "\<forall>c. originalName (mk c) = originalName (new_Command c)"
    by blast
  show ?thesis
    using assms(2) n new_Command_originalName[OF n(2)]
    by (auto simp: register_with_registry)
qed


subsection \<open>The example registry\<close>

lemmas spec_defs = plain_arg_def plain_cmd_def ping_spec_def roll_spec_def ban_spec_def echo_spec_def
lemmas register_defs = registerSingle_def register_def register_with_def

lemma example_registry_lookup:
  "example_registry ''ping'' = Some (resolveCommand (ping_spec
      \<lparr>cs_name := Some ''ping'', cs_originalName := Some ''ping'', cs_aliases := Some []\<rparr>))"
  "example_registry ''roll'' = Some (resolveCommand (roll_spec
      \<lparr>cs_name := Some ''roll'', cs_originalName := Some ''roll'', cs_aliases := Some []\<rparr>))"
  "example_registry ''ban'' = Some (resolveCommand (ban_spec
      \<lparr>cs_name := Some ''ban'', cs_originalName := Some ''ban'', cs_aliases := Some [''b'']\<rparr>))"
  "example_registry ''b'' = Some (resolveCommand (ban_spec
      \<lparr>cs_name := Some ''b'', cs_originalName := Some ''ban'', cs_aliases := Some [''ban'']\<rparr>))"
  "example_registry ''echo'' = Some (resolveCommand (echo_spec
      \<lparr>cs_name := Some ''echo'', cs_originalName := Some ''echo'', cs_aliases := Some [''e'']\<rparr>))"
  "example_registry ''e'' = Some (resolveCommand (echo_spec
      \<lparr>cs_name := Some ''e'', cs_originalName := Some ''echo'', cs_aliases := Some [''echo'']\<rparr>))"
  by (simp_all add: example_registry_def register_defs spec_defs or_str_def Let_def)

lemma example_fields:
  "command_fields.truncate (resolveCommand (ban_spec
      \<lparr>cs_name := Some ''b'', cs_originalName := Some ''ban'', cs_aliases := Some [''ban'']\<rparr>))
    = \<lparr> name = Some ''b'', originalName = Some ''ban'', description = [], longDescription = [],
        aliases = [''ban''] \<rparr>"
  by (simp add: command_fields.truncate_def resolveCommand_def new_Command_def findName_def or_str_def
      Let_def spec_defs)

lemma example_originalName:
  "originalName (resolveCommand (ban_spec \<lparr>cs_name := n, cs_originalName := Some ''ban'', cs_aliases := a\<rparr>)) = Some ''ban''"
  "name (resolveCommand (ban_spec \<lparr>cs_name := Some ''b'', cs_originalName := m, cs_aliases := a\<rparr>)) = Some ''b''"
  "originalName (resolveCommand (ping_spec \<lparr>cs_name := n, cs_originalName := Some ''ping'', cs_aliases := a\<rparr>)) = Some ''ping''"
  by (simp_all add: resolveCommand_def new_Command_def findName_def or_str_def Let_def spec_defs)

text \<open>
  Claim C6: a command argument built with \<^verbatim>\<open>allowAlias: false\<close> refuses a token that
  names an alias filing. The constructor computes \<^verbatim>\<open>argument.allowAlias || true\<close>, which is
  \<^verbatim>\<open>true\<close> whatever was given, so the test for an alias never fires: with the command
  \<^verbatim>\<open>ban\<close> registered under the alias \<^verbatim>\<open>b\<close>, the token \<^verbatim>\<open>b\<close> resolves to the
  record filed under \<^verbatim>\<open>b\<close>.
\<close>

theorem allowAlias_false_is_ignored:
  "allowAlias (new_command ((plain_arg ''cmd'') \<lparr> spec_allowAlias := Some False \<rparr>)) = True
   \<and> getValue L example_registry (new_command ((plain_arg ''cmd'') \<lparr> spec_allowAlias := Some False \<rparr>))
        (Some ''b'') args
      = Inr (Cmd \<lparr> name = Some ''b'', originalName = Some ''ban'', description = [],
                    longDescription = [], aliases = [''ban''] \<rparr>)"
  by (simp add: getValue_def command_getValue_def example_registry_lookup example_fields)
     (simp add: new_command_def)

text \<open>The other half of the claim holds: a token that is no key of the registry fails.\<close>

lemma command_missing:
  assumes "reg s = None" and "localize args = Some loc"
  shows "\<exists>e. getValue L reg (new_command a) (Some s) args = Inr (Err e)
           \<and> code e = ''COMMAND_ARGUMENT_NONEXISTENT''"
  using assms return_error_code[OF assms(2), of "new_command a" "''command_argument_nonexistent''" "Some s"]
  by (auto simp: getValue_def command_getValue_def upper_codes)

subsection \<open>The names of the filed records\<close>





lemma register_ban:
  "register ban_spec Map.empty = Inr (register_with new_Command ''ban'' ban_spec Map.empty)"
  "findName ban_spec = Some ''ban''" "declared_aliases ban_spec = [''b'']"
  by (simp_all add: register_def findName_def or_str_def declared_aliases_def spec_defs)


subsection \<open>Deregistration\<close>

text \<open>
  Claim C7: when a command with the canonical name \<open>n\<close> is filed under \<open>n\<close> and under each
  alias in \<open>A\<close>, the registry after \<^verbatim>\<open>deregister(n, true)\<close> has none of these keys.
\<close>

theorem deregister_removes_command_and_aliases:
  assumes "\<forall>k \<in> set (n # A). \<exists>c. reg k = Some c \<and> originalName c = Some n"
  shows "\<forall>k \<in> set (n # A). deregister n True reg k = None"
  using assms by (auto simp: deregister_def filter_registry_def)

theorem deregister_removes_command_and_aliases_witness:
  "(\<exists>c. example_registry ''ban'' = Some c \<and> originalName c = Some ''ban'')
   \<and> (\<exists>c. example_registry ''b'' = Some c \<and> originalName c = Some ''ban'')
   \<and> deregister ''ban'' True example_registry ''ban'' = None
   \<and> deregister ''ban'' True example_registry ''b'' = None"
proof -
  have h: "\<forall>k \<in> set [''ban'', ''b'']. \<exists>c. example_registry k = Some c \<and> originalName c = Some ''ban''"
    by (simp add: example_registry_lookup example_originalName)
  from deregister_removes_command_and_aliases[OF h] h show ?thesis by simp
qed

text \<open>
  In particular a command that was just registered, by either \<^verbatim>\<open>register\<close>, is gone with
  all its aliases.
\<close>

lemma register_then_deregister:
  assumes "register cmd reg = Inr r \<or> registerSingle cmd reg = Inr r"
    and "findName cmd = Some n"
    and "k \<in> set (declared_aliases cmd) \<or> k = n"
  shows "deregister n True (registry_after r) k = None"
proof -
  from assms(2,3) have "k \<in> set (declared_aliases cmd) \<or> findName cmd = Some k" by auto
  from register_originalName[OF assms(1) this] assms(2)
  show ?thesis by (auto simp: deregister_def filter_registry_def)
qed

subsection \<open>What registration does to the caller's object\<close>

text \<open>
  Claim C9 says that after \<^verbatim>\<open>register\<close> the caller's object has an \<^verbatim>\<open>aliases\<close> array
  that includes the canonical name. Registering \<^verbatim>\<open>ban\<close> with the alias \<^verbatim>\<open>b\<close> leaves the
  object with the name \<^verbatim>\<open>ban\<close> and the aliases \<^verbatim>\<open>["b"]\<close>: the canonical name is
  pushed last, so it is the last alias processed and the one filtered out.
\<close>

theorem register_final_aliases_counterexample:
  "register ban_spec Map.empty = Inr (register_with new_Command ''ban'' ban_spec Map.empty)
   \<and> cs_name (cmd_after (register_with new_Command ''ban'' ban_spec Map.empty)) = Some ''ban''
   \<and> cs_aliases (cmd_after (register_with new_Command ''ban'' ban_spec Map.empty)) = Some [''b'']
   \<and> ''ban'' \<notin> set (declared_aliases (cmd_after (register_with new_Command ''ban'' ban_spec Map.empty)))"
proof -
  have "cmd_after (register_with new_Command ''ban'' ban_spec Map.empty)
      = ban_spec \<lparr> cs_name := Some ''ban'', cs_originalName := Some ''ban'', cs_aliases := Some [''b''] \<rparr>"
    by (simp add: register_with_cmd register_ban)
  then show ?thesis
    by (simp add: register_ban declared_aliases_def)
qed

text \<open>
  Claim C9, amended: \<^verbatim>\<open>register\<close> pushes the canonical name onto the array it iterates
  (the caller's own array when the object had one) and overwrites \<^verbatim>\<open>name\<close>,
  \<^verbatim>\<open>originalName\<close> and \<^verbatim>\<open>aliases\<close> of the caller's object once per entry, so that
  afterwards the object's \<^verbatim>\<open>name\<close> and \<^verbatim>\<open>originalName\<close> are the canonical name, which
  is the last entry processed, and its \<^verbatim>\<open>aliases\<close> is a new array of the declared aliases
  other than the canonical name; every other property is unchanged.
\<close>

theorem register_mutates_specification:
  assumes "register cmd reg = Inr r \<or> registerSingle cmd reg = Inr r"
  shows "\<exists>n. findName cmd = Some n \<and> n \<noteq> []
           \<and> alias_array r = declared_aliases cmd @ [n]
           \<and> cmd_after r = cmd \<lparr> cs_name := Some n, cs_originalName := Some n,
                 cs_aliases := Some (filter (\<lambda>name2. name2 \<noteq> n) (declared_aliases cmd)) \<rparr>
           \<and> cs_name (cmd_after r) = Some (last (alias_array r))
           \<and> n \<notin> set (declared_aliases (cmd_after r))"
proof -
  from registered_form[OF assms]
  obtain n mk where n: "findName cmd = Some n" "n \<noteq> []" "r = register_with mk n cmd reg"
    by blast
  show ?thesis
    using n by (simp add: register_with_cmd register_with_alias_array declared_aliases_def)
qed

theorem register_mutates_specification_witness:
  "register ban_spec Map.empty = Inr (register_with new_Command ''ban'' ban_spec Map.empty)
   \<and> alias_array (register_with new_Command ''ban'' ban_spec Map.empty) = [''b'', ''ban'']
   \<and> cmd_after (register_with new_Command ''ban'' ban_spec Map.empty)
       = ban_spec \<lparr> cs_name := Some ''ban'', cs_originalName := Some ''ban'', cs_aliases := Some [''b''] \<rparr>"
proof -
  have h: "register ban_spec Map.empty = Inr (register_with new_Command ''ban'' ban_spec Map.empty)
       \<or> registerSingle ban_spec Map.empty = Inr (register_with new_Command ''ban'' ban_spec Map.empty)"
    by (simp add: register_ban)
  from register_mutates_specification[OF h] show ?thesis
    by (simp add: register_ban)
qed

section \<open>Facts about parsing\<close>

lemma attempts_Nil [simp]: "attempts L reg pass args i [] = []"
  by (simp add: attempts_def)

lemma attempts_Cons [simp]:
  "attempts L reg pass args i (a # as) =
     get L reg a (at_index args i) pass # attempts L reg pass args (Suc i) as"
  by (simp add: attempts_def)


lemma loop_ok:
  "fst (forEach_argument L reg pass keys args as i st) = None \<Longrightarrow>
   ok (snd (forEach_argument L reg pass keys args as i st))
     = (ok st \<and> list_all succeeds (attempts L reg pass args i as))"
  by (induction as arbitrary: i st) (auto simp: succeeds_def split: sum.splits)





lemma finish_invoked:
  "invoked (finish c r) =
     (if fst r = None \<and> ok (snd r) then run_if_checked c (obj (snd r)) else [])"
  by (cases r) (auto simp: finish_def split: option.splits)


lemma parse_known:
  assumes "match_parts (trim command) = Some (part0 # args)" and "reg part0 = Some cmdSource"
  shows "parse L reg command pass =
     finish cmdSource (forEach_argument L reg pass (\<lambda>k. [k]) (map Some args) (arguments cmdSource) 0
        \<lparr> obj = \<lparr> ctx = pass, vals = Map.empty \<rparr>, ok = True, msgs = [] \<rparr>)"
  using assms by (simp add: parse_def)

lemma src_parse_known:
  assumes "cmdStr (trim command) \<noteq> []" and "reg (cmdStr (trim command)) = Some cmdSource"
  shows "src_parse L reg command pass =
     finish cmdSource (forEach_argument L reg pass (\<lambda>k. [camelCase L k, k])
        (split_args L (trim command) cmdSource) (arguments cmdSource) 0
        \<lparr> obj = \<lparr> ctx = pass, vals = Map.empty \<rparr>, ok = \<not> gate_rejects pass cmdSource,
          msgs = (if gate_rejects pass cmdSource then denial pass else []) \<rparr>)"
  using assms by (simp add: src_parse_def Let_def)




lemma finish_loop_invoked:
  "invoked (finish c (forEach_argument L reg pass keys args as 0 st)) \<noteq> [] \<Longrightarrow>
     ok st \<and> list_all succeeds (attempts L reg pass args 0 as)"
  using loop_ok[of L reg pass keys args as 0 st]
  by (auto simp: finish_invoked split: if_splits)



lemma assigned_Nil [simp]: "assigned keys [] rs k = None"
  by (simp add: assigned_def)








subsection \<open>The example commands\<close>

lemma example_arguments:
  "arguments (resolveCommand (ping_spec \<lparr>cs_name := n, cs_originalName := m, cs_aliases := a\<rparr>)) = []"
  "arguments (resolveCommand (roll_spec \<lparr>cs_name := n, cs_originalName := m, cs_aliases := a\<rparr>))
     = [new_integer ((plain_arg ''sides'') \<lparr> spec_type := Some ''integer'', spec_required := True \<rparr>)]"
  "arguments (resolveCommand (ban_spec \<lparr>cs_name := n, cs_originalName := m, cs_aliases := a\<rparr>))
     = [new_UserArgument ((plain_arg ''target'') \<lparr> spec_type := Some ''user'', spec_required := True \<rparr>)]"
  "arguments (resolveCommand (echo_spec \<lparr>cs_name := n, cs_originalName := m, cs_aliases := a\<rparr>))
     = [new_StringArgument ((plain_arg ''text'') \<lparr> spec_type := Some ''string'' \<rparr>)]"
  by (simp_all add: resolveCommand_def new_Command_def Let_def spec_defs new_arg_def argTypes_def)

lemma example_handlers:
  "handler (resolveCommand (ban_spec \<lparr>cs_name := n, cs_originalName := m, cs_aliases := a\<rparr>)) = Some ''banHandler''"
  "handler (resolveCommand (echo_spec \<lparr>cs_name := n, cs_originalName := m, cs_aliases := a\<rparr>)) = Some ''echoHandler''"
  "check (resolveCommand (ban_spec \<lparr>cs_name := n, cs_originalName := m, cs_aliases := a\<rparr>)) = NoCheck"
  "check (resolveCommand (echo_spec \<lparr>cs_name := n, cs_originalName := m, cs_aliases := a\<rparr>)) = CheckOne (\<lambda>a. False)"
  "permissionless (resolveCommand (ping_spec \<lparr>cs_name := n, cs_originalName := m, cs_aliases := a\<rparr>)) = False"
  by (simp_all add: resolveCommand_def new_Command_def Let_def spec_defs)

lemma trim_simple:
  "trim ''ban'' = ''ban''" "trim ''roll'' = ''roll''" "trim ''ping'' = ''ping''" "trim ''e hi'' = ''e hi''"
  "trim [] = []"
  by code_simp+

lemma match_simple:
  "match_parts ''ban'' = Some [''ban'']" "match_parts ''roll'' = Some [''roll'']"
  "match_parts ''e hi'' = Some [''e'', ''hi'']" "match_parts [] = None"
  by code_simp+

lemma cmdStr_simple:
  "cmdStr ''ban'' = ''ban''" "cmdStr ''ping'' = ''ping''" "cmdStr ''e hi'' = ''e''" "cmdStr [] = []"
  "cmdStr ''zzz'' = ''zzz''"
  by code_simp+


lemma firstSpace_simple:
  "firstSpace ''ban'' = 3" "firstSpace ''ping'' = 4" "firstSpace ''e hi'' = 1"
  by code_simp+

lemma split_args_simple:
  "split_args example_libraries ''ban'' c = []"
  "split_args example_libraries ''ping'' c = []"
  "split_args example_libraries ''e hi'' c = [Some ''hi'']"
  by (simp_all add: split_args_def example_libraries_def firstSpace_simple)

lemma camelCase_example: "camelCase example_libraries k = k"
  by (simp add: example_libraries_def)

lemma gate_example: "\<not> gate_rejects example_pass c"
  by (simp add: gate_rejects_def example_pass_def)



lemma plain_fields [simp]:
  "spec_default (plain_arg k \<lparr> spec_type := t, spec_required := r \<rparr>) = Undefined"
  "spec_choices (plain_arg k \<lparr> spec_type := t, spec_required := r \<rparr>) = None"
  "spec_key (plain_arg k \<lparr> spec_type := t, spec_required := r \<rparr>) = k"
  "spec_required (plain_arg k \<lparr> spec_type := t, spec_required := r \<rparr>) = r"
  "spec_default (plain_arg k \<lparr> spec_type := t \<rparr>) = Undefined"
  "spec_choices (plain_arg k \<lparr> spec_type := t \<rparr>) = None"
  "spec_key (plain_arg k \<lparr> spec_type := t \<rparr>) = k"
  by (simp_all add: plain_arg_def)



subsection \<open>When \<^verbatim>\<open>parse\<close> returns the object\<close>





subsection \<open>Required arguments\<close>

text \<open>
  Claim C4: a required argument with no token fails with \<^verbatim>\<open>ARGUMENT_REQUIRED\<close> and the
  handler is not invoked. For a required argument of the user class it is not so: the
  command \<^verbatim>\<open>ban\<close> takes a required user, and on the input \<^verbatim>\<open>ban\<close> both \<^verbatim>\<open>parse\<close>
  functions send nothing and invoke the handler with the target \<^verbatim>\<open>undefined\<close> (a
  string), because \<^verbatim>\<open>getValue\<close> of the class turns the missing token into that string.
\<close>

theorem required_user_absent_runs_handler:
  "parse L example_registry ''ban'' example_pass =
     \<lparr> sent = [], invoked = [(''banHandler'', \<lparr> ctx = example_pass, vals = [''target'' \<mapsto> Str ''undefined''] \<rparr>)],
       completion = Returned (Some \<lparr> ctx = example_pass, vals = [''target'' \<mapsto> Str ''undefined''] \<rparr>) \<rparr>
   \<and> src_parse example_libraries example_registry ''ban'' example_pass =
     \<lparr> sent = [], invoked = [(''banHandler'', \<lparr> ctx = example_pass, vals = [''target'' \<mapsto> Str ''undefined''] \<rparr>)],
       completion = Returned (Some \<lparr> ctx = example_pass, vals = [''target'' \<mapsto> Str ''undefined''] \<rparr>) \<rparr>"
proof
  show "parse L example_registry ''ban'' example_pass =
     \<lparr> sent = [], invoked = [(''banHandler'', \<lparr> ctx = example_pass, vals = [''target'' \<mapsto> Str ''undefined''] \<rparr>)],
       completion = Returned (Some \<lparr> ctx = example_pass, vals = [''target'' \<mapsto> Str ''undefined''] \<rparr>) \<rparr>"
    by (simp add: parse_def Let_def trim_simple match_simple example_registry_lookup
      example_arguments example_handlers at_index_def get_user_absent finish_def
      run_if_checked_def run_def)
  show "src_parse example_libraries example_registry ''ban'' example_pass =
     \<lparr> sent = [], invoked = [(''banHandler'', \<lparr> ctx = example_pass, vals = [''target'' \<mapsto> Str ''undefined''] \<rparr>)],
       completion = Returned (Some \<lparr> ctx = example_pass, vals = [''target'' \<mapsto> Str ''undefined''] \<rparr>) \<rparr>"
    by (simp add: src_parse_def Let_def trim_simple cmdStr_simple split_args_simple gate_example
      camelCase_example
      example_registry_lookup example_arguments example_handlers at_index_def get_user_absent
      finish_def run_if_checked_def run_def)
qed

subsection \<open>Empty input\<close>

text \<open>
  Claim C8: \<^verbatim>\<open>parse\<close> on the empty string returns nothing, invokes no handler, sends no
  message and raises no error. \<^verbatim>\<open>parse\<close> of \<^verbatim>\<open>src/index.js\<close> does so; \<^verbatim>\<open>parse\<close> of
  \<^verbatim>\<open>index.js\<close> raises a \<^verbatim>\<open>TypeError\<close>: \<^verbatim>\<open>match\<close> returns \<^verbatim>\<open>null\<close> when nothing
  matches and the guard reads \<^verbatim>\<open>parts.length\<close>.
\<close>

theorem parse_empty_string:
  "parse L reg [] pass =
     \<lparr> sent = [], invoked = [], completion = Threw (TypeError ''Cannot read property length of null'') \<rparr>
   \<and> src_parse L reg [] pass = \<lparr> sent = [], invoked = [], completion = Returned None \<rparr>"
  by (simp add: parse_def src_parse_def Let_def trim_simple match_simple cmdStr_simple)

lemma trim_blank:
  assumes "list_all is_space command"
  shows "trim command = []"
proof -
  have d: "dropWhile is_space command = []"
    using assms by (simp add: list_all_iff)
  show ?thesis unfolding trim_def d by simp
qed

lemma trim_starts_plain: "trim command = c # r \<Longrightarrow> \<not> is_space c"
proof -
  assume a: "trim command = c # r"
  let ?t = "dropWhile is_space command"
  have "rev ?t = takeWhile is_space (rev ?t) @ dropWhile is_space (rev ?t)" by simp
  then have "?t = rev (dropWhile is_space (rev ?t)) @ rev (takeWhile is_space (rev ?t))"
    by (metis rev_append rev_rev_ident)
  with a have t: "?t = c # (r @ rev (takeWhile is_space (rev ?t)))" by (simp add: trim_def)
  then have "?t \<noteq> []" by (metis list.simps(3))
  from hd_dropWhile[OF this] have "\<not> is_space (hd ?t)" .
  moreover from t have "hd ?t = c" by (metis list.sel(1))
  ultimately show ?thesis by simp
qed

lemma cmdStr_empty_iff: "(cmdStr (trim command) = []) = (trim command = [])"
proof (cases "trim command")
  case Nil
  then show ?thesis by (simp add: cmdStr_def)
next
  case (Cons c r)
  with trim_starts_plain[OF Cons] have "c \<noteq> CHR 0x20" by (auto simp: is_space_def)
  with Cons show ?thesis by (auto simp: cmdStr_def firstSpace_def)
qed

lemma scan_blank: "scan False [] [] = []"
  by simp

text \<open>
  An input of white space only: \<^verbatim>\<open>parse\<close> of \<^verbatim>\<open>index.js\<close> raises, \<^verbatim>\<open>parse\<close> of
  \<^verbatim>\<open>src/index.js\<close> returns \<^verbatim>\<open>undefined\<close> and does nothing else.
\<close>

lemma blank_input:
  assumes "list_all is_space command"
  shows "parse L reg command pass =
     \<lparr> sent = [], invoked = [], completion = Threw (TypeError ''Cannot read property length of null'') \<rparr>"
    and "src_parse L reg command pass = \<lparr> sent = [], invoked = [], completion = Returned None \<rparr>"
  using trim_blank[OF assms]
  by (simp_all add: parse_def src_parse_def Let_def match_parts_def cmdStr_def)

text \<open>
  For the classes that test for \<^verbatim>\<open>undefined\<close>, claim C4 holds: a required argument with
  no token blocks the handler in both \<^verbatim>\<open>parse\<close> functions.
\<close>

lemma attempts_nth:
  "i < length as \<Longrightarrow> attempts L reg pass args j as ! i = get L reg (as ! i) (at_index args (j + i)) pass"
  by (simp add: attempts_def nth_enumerate_eq)

lemma attempts_length: "length (attempts L reg pass args j as) = length as"
  by (simp add: attempts_def)

lemma required_absent_blocks_handler:
  assumes "i < length (arguments cmdSource)"
    and "required (arguments cmdSource ! i)"
    and "cls (arguments cmdSource ! i) \<notin> {UserClass, SubredditClass, CustomClass}"
    and "localize pass = Some loc" and "send pass"
  shows "match_parts (trim command) = Some (part0 # args) \<Longrightarrow> reg part0 = Some cmdSource \<Longrightarrow>
           at_index (map Some args) i = None \<Longrightarrow> invoked (parse L reg command pass) = []"
    and "cmdStr (trim command) \<noteq> [] \<Longrightarrow> reg (cmdStr (trim command)) = Some cmdSource \<Longrightarrow>
           at_index (split_args L (trim command) cmdSource) i = None \<Longrightarrow>
           invoked (src_parse L reg command pass) = []"
proof -
  have fail: "\<not> list_all succeeds (attempts L reg pass xs 0 (arguments cmdSource))"
    if "at_index xs i = None" for xs
  proof -
    from required_absent_checked_classes[OF assms(2,3,4,5), of L reg]
    have "\<not> succeeds (get L reg (arguments cmdSource ! i) None pass)"
      by (auto simp: succeeds_def)
    with that attempts_nth[OF assms(1), of L reg pass xs 0]
    have "\<not> succeeds (attempts L reg pass xs 0 (arguments cmdSource) ! i)" by simp
    with assms(1) show ?thesis
      by (auto simp: list_all_length attempts_length)
  qed
  show "invoked (parse L reg command pass) = []"
    if "match_parts (trim command) = Some (part0 # args)" "reg part0 = Some cmdSource"
      "at_index (map Some args) i = None"
    using fail[OF that(3)] finish_loop_invoked
    unfolding parse_known[of command part0 args reg cmdSource L pass, OF that(1,2)]
    by blast
  show "invoked (src_parse L reg command pass) = []"
    if "cmdStr (trim command) \<noteq> []" "reg (cmdStr (trim command)) = Some cmdSource"
      "at_index (split_args L (trim command) cmdSource) i = None"
    using fail[OF that(3)] finish_loop_invoked
    unfolding src_parse_known[of command reg cmdSource L pass, OF that(1,2)]
    by blast
qed


end
